theory Spec2Isabelle
  imports Main "HOL-Library.Sublist" "HOL-Library.Multiset"
begin

section \<open>Data model of \<open>scripts/convert_m3u8_to_json.py\<close>\<close>

text \<open>
  A Python \<open>str\<close> is a sequence of Unicode code points; it is modelled as a list of
  natural numbers, one per code point, so that \<open>len\<close>, slicing, \<open>startswith\<close> and
  \<open>in\<close> count what Python counts.
\<close>

type_synonym ustring = "nat list"

datatype content_type = Movie | Series

text \<open>
  The dictionary built for every playlist entry in \<open>parse_m3u8_file\<close>. The optional keys
  \<open>logo\<close>, \<open>isAdult\<close> and the triple \<open>seriesName\<close>/\<open>season\<close>/\<open>episode\<close> (always set
  together) are options or a flag; the key \<open>_category\<close>, which \<open>main\<close> pops before the
  item is written, is the extension field of \<open>entry\<close>.
\<close>

record item =
  item_id :: ustring
  name :: ustring
  url :: ustring
  item_type :: content_type
  logo :: "ustring option"
  isAdult :: bool
  series_info :: "(ustring \<times> int \<times> int) option"

record entry = item +
  category :: ustring

section \<open>Removal of duplicates by URL (\<open>main\<close>, lines 401-411)\<close>

record dedup_state =
  seen_urls :: "ustring set"
  unique_items :: "entry list"
  duplicates :: nat

definition dedup_step :: "dedup_state \<Rightarrow> entry \<Rightarrow> dedup_state" where
  "dedup_step st it =
     (if url it \<notin> seen_urls st
      then st\<lparr>seen_urls := insert (url it) (seen_urls st),
              unique_items := unique_items st @ [it]\<rparr>
      else st\<lparr>duplicates := duplicates st + 1\<rparr>)"

definition remove_duplicates :: "entry list \<Rightarrow> dedup_state" where
  "remove_duplicates all_items =
     foldl dedup_step \<lparr>seen_urls = {}, unique_items = [], duplicates = 0\<rparr> all_items"

text \<open>
  The entries of \<open>xs\<close> whose url is not in \<open>S\<close> and occurs at no earlier index
  of \<open>xs\<close>, in the order of \<open>xs\<close>.
\<close>

definition first_occurrences :: "ustring set \<Rightarrow> entry list \<Rightarrow> entry list" where
  "first_occurrences S xs =
     map (nth xs)
       (filter (\<lambda>i. url (xs ! i) \<notin> S \<and> (\<forall>j<i. url (xs ! j) \<noteq> url (xs ! i)))
          [0..<length xs])"

text \<open>An entry with the given name and url, for the concrete runs below.\<close>

definition sample_entry :: "ustring \<Rightarrow> ustring \<Rightarrow> entry" where
  "sample_entry n u =
     \<lparr>item_id = n, name = n, url = u, item_type = Movie, logo = None, isAdult = False,
      series_info = None, category = []\<rparr>"

section \<open>Python string operations\<close>

text \<open>
  \<open>s.startswith(p)\<close>, \<open>s.endswith(p)\<close> and \<open>p in s\<close> are \<open>prefix p s\<close>, \<open>suffix p s\<close> and
  \<open>sublist p s\<close> (a contiguous sublist) of the list library.

  \<open>str.isspace\<close> of one code point; \<open>str.strip()\<close> and the regular-expression class
  \<open>\s\<close> use the same set.
\<close>

definition is_space :: "nat \<Rightarrow> bool" where
  "is_space c \<longleftrightarrow>
     (9 \<le> c \<and> c \<le> 13) \<or> (28 \<le> c \<and> c \<le> 32) \<or> c = 0x85 \<or> c = 0xA0 \<or> c = 0x1680 \<or>
     (0x2000 \<le> c \<and> c \<le> 0x200A) \<or> c = 0x2028 \<or> c = 0x2029 \<or> c = 0x202F \<or> c = 0x205F \<or>
     c = 0x3000"

definition strip :: "ustring \<Rightarrow> ustring" where
  "strip s = rev (dropWhile is_space (rev (dropWhile is_space s)))"

text \<open>
  \<open>s.replace(old, new)\<close>: every occurrence of \<open>old\<close>, found from left to right without
  overlap, is replaced. For an empty \<open>old\<close> Python puts \<open>new\<close> before every code point and
  at the end.
\<close>

function replace_from :: "ustring \<Rightarrow> ustring \<Rightarrow> ustring \<Rightarrow> ustring" where
  "replace_from old new s =
     (if s = [] then []
      else if old \<noteq> [] \<and> prefix old s then new @ replace_from old new (drop (length old) s)
      else hd s # replace_from old new (tl s))"
  by pat_completeness auto
termination
  by (relation "measure (\<lambda>(old, new, s). length s)") (auto simp: neq_Nil_conv)

declare replace_from.simps [simp del]

definition replace :: "ustring \<Rightarrow> ustring \<Rightarrow> ustring \<Rightarrow> ustring" where
  "replace s old new =
     (if old = [] then new @ concat (map (\<lambda>c. c # new) s) else replace_from old new s)"

text \<open>\<open>s.split(sep)\<close> for a separator of one code point.\<close>

fun split :: "ustring \<Rightarrow> nat \<Rightarrow> ustring list" where
  "split [] sep = [[]]"
| "split (c # cs) sep =
     (if c = sep then [] # split cs sep
      else case split cs sep of w # ws \<Rightarrow> (c # w) # ws | [] \<Rightarrow> [[c]])"

text \<open>\<open>str(n)\<close> of a natural number, in decimal.\<close>

fun str_nat :: "nat \<Rightarrow> ustring" where
  "str_nat n = (if n < 10 then [48 + n] else str_nat (n div 10) @ [48 + n mod 10])"

declare str_nat.simps [simp del]

text \<open>
  The zero digits of the decimal-digit blocks of Unicode 14 (the version of CPython 3.11):
  every code point of category Nd lies in a run of ten, from its zero to its nine. The class
  \<open>\d\<close> and \<open>int()\<close> accept all of them.
\<close>

definition decimal_zeros :: "nat list" where
  "decimal_zeros =
     [0x30, 0x660, 0x6f0, 0x7c0, 0x966, 0x9e6, 0xa66, 0xae6, 0xb66, 0xbe6, 0xc66, 0xce6, 0xd66,
      0xde6, 0xe50, 0xed0, 0xf20, 0x1040, 0x1090, 0x17e0, 0x1810, 0x1946, 0x19d0, 0x1a80, 0x1a90,
      0x1b50, 0x1bb0, 0x1c40, 0x1c50, 0xa620, 0xa8d0, 0xa900, 0xa9d0, 0xa9f0, 0xaa50, 0xabf0,
      0xff10, 0x104a0, 0x10d30, 0x11066, 0x110f0, 0x11136, 0x111d0, 0x112f0, 0x11450, 0x114d0,
      0x11650, 0x116c0, 0x11730, 0x118e0, 0x11950, 0x11c50, 0x11d50, 0x11da0, 0x16a60, 0x16ac0,
      0x16b50, 0x1d7ce, 0x1d7d8, 0x1d7e2, 0x1d7ec, 0x1d7f6, 0x1e140, 0x1e2f0, 0x1e950, 0x1fbf0]"

definition is_decimal :: "nat \<Rightarrow> bool" where
  "is_decimal c \<longleftrightarrow> list_ex (\<lambda>z. z \<le> c \<and> c < z + 10) decimal_zeros"

definition decimal_value :: "nat \<Rightarrow> int" where
  "decimal_value c =
     (case find (\<lambda>z. z \<le> c \<and> c < z + 10) decimal_zeros of
        Some z \<Rightarrow> int (c - z) | None \<Rightarrow> 0)"

text \<open>
  \<open>int(s)\<close> on a string of decimal digits, the only strings the program converts: the
  value of the digits, and \<open>ValueError\<close> when there are more of them than
  \<open>sys.get_int_max_str_digits()\<close>, which is 4300 unless the interpreter is started with
  another limit. Leading zeros count.
\<close>

datatype py_error = ValueError

definition int_of_digits :: "ustring \<Rightarrow> int" where
  "int_of_digits s = foldl (\<lambda>a c. 10 * a + decimal_value c) 0 s"

definition int_max_str_digits :: nat where
  "int_max_str_digits = 4300"

definition py_int :: "ustring \<Rightarrow> py_error + int" where
  "py_int s = (if int_max_str_digits < length s then Inl ValueError else Inr (int_of_digits s))"

section \<open>What the interpreter provides\<close>

text \<open>
  Four things the program takes from the Python process it runs in are parameters of the
  model: the Unicode case conversions \<open>str.lower\<close> and \<open>str.upper\<close>, the built-in \<open>hash\<close>
  on strings (salted per process unless \<open>PYTHONHASHSEED\<close> is fixed), and the text that
  \<open>datetime.now().isoformat()\<close> returns when \<open>main\<close> builds the index.
\<close>

record runtime =
  str_lower :: "ustring \<Rightarrow> ustring"
  str_upper :: "ustring \<Rightarrow> ustring"
  str_hash :: "ustring \<Rightarrow> int"
  now_isoformat :: ustring

text \<open>
  Case conversion of the code points below U+0080 and of the Latin-1 letters with a
  one-to-one mapping inside Latin-1; a runtime is \<open>latin_cased\<close> when its conversions agree
  with these on every string made of code points that \<open>plain_cased\<close> accepts (Basic Latin,
  Latin-1 without U+00B5, U+00DF and U+00FF, and the uncased symbols U+23FA, U+26BD and
  U+FE0F of the ignored-category list). CPython's conversions do.
\<close>

definition lower_cp :: "nat \<Rightarrow> nat" where
  "lower_cp c =
     (if (65 \<le> c \<and> c \<le> 90) \<or> (0xC0 \<le> c \<and> c \<le> 0xDE \<and> c \<noteq> 0xD7) then c + 32 else c)"

definition upper_cp :: "nat \<Rightarrow> nat" where
  "upper_cp c =
     (if (97 \<le> c \<and> c \<le> 122) \<or> (0xE0 \<le> c \<and> c \<le> 0xFE \<and> c \<noteq> 0xF7) then c - 32 else c)"

definition plain_cased :: "nat \<Rightarrow> bool" where
  "plain_cased c \<longleftrightarrow>
     (c < 0x100 \<and> c \<noteq> 0xB5 \<and> c \<noteq> 0xDF \<and> c \<noteq> 0xFF) \<or> c = 0x23FA \<or> c = 0x26BD \<or> c = 0xFE0F"

definition latin_cased :: "runtime \<Rightarrow> bool" where
  "latin_cased rt \<longleftrightarrow>
     (\<forall>s. list_all plain_cased s \<longrightarrow>
        str_lower rt s = map lower_cp s \<and> str_upper rt s = map upper_cp s)"

text \<open>A runtime for the concrete runs: the conversions above, and a constant hash.\<close>

definition sample_runtime :: runtime where
  "sample_runtime =
     \<lparr>str_lower = map lower_cp, str_upper = map upper_cp, str_hash = (\<lambda>s. 1234567),
      now_isoformat = []\<rparr>"

section \<open>Regular expressions of the \<open>re\<close> module\<close>

text \<open>
  The patterns of the program use literals, classes of one code point, greedy and lazy
  repetition of such a class, groups, the anchors \<open>^\<close> and \<open>$\<close>, and one alternation at top
  level. A pattern is a list of alternatives, each a list of atoms; matching backtracks as
  \<open>re\<close> does: a greedy repetition tries the longest run first, a lazy one the shortest.

  With \<open>re.IGNORECASE\<close> a literal letter of Basic Latin matches both of its cases, and
  (in Unicode patterns) the further code points with the same case folding: U+017F for
  \<open>s\<close>, U+212A for \<open>k\<close>, U+0130 and U+0131 for \<open>i\<close>.
\<close>

definition ignorecase_eq :: "nat \<Rightarrow> nat \<Rightarrow> bool" where
  "ignorecase_eq p c \<longleftrightarrow>
     (if 65 \<le> p \<and> p \<le> 90
      then c = p \<or> c = p + 32 \<or> (p = 83 \<and> c = 0x17F) \<or> (p = 75 \<and> c = 0x212A) \<or>
        (p = 73 \<and> (c = 0x130 \<or> c = 0x131))
      else if 97 \<le> p \<and> p \<le> 122
      then c = p \<or> c + 32 = p \<or> (p = 115 \<and> c = 0x17F) \<or> (p = 107 \<and> c = 0x212A) \<or>
        (p = 105 \<and> (c = 0x130 \<or> c = 0x131))
      else c = p)"

datatype set_item = Ch nat | Rng nat nat | SetSpace | SetDigit

fun in_item :: "set_item \<Rightarrow> nat \<Rightarrow> bool" where
  "in_item (Ch p) c = (c = p)"
| "in_item (Rng lo hi) c = (lo \<le> c \<and> c \<le> hi)"
| "in_item SetSpace c = is_space c"
| "in_item SetDigit c = is_decimal c"

datatype cls = Lit nat | LitI nat | Dot | Digit | Space
  | OneOf "set_item list" | NoneOf "set_item list"

fun cmatch :: "cls \<Rightarrow> nat \<Rightarrow> bool" where
  "cmatch (Lit p) c = (c = p)"
| "cmatch (LitI p) c = ignorecase_eq p c"
| "cmatch Dot c = (c \<noteq> 10)"
| "cmatch Digit c = is_decimal c"
| "cmatch Space c = is_space c"
| "cmatch (OneOf its) c = list_ex (\<lambda>it. in_item it c) its"
| "cmatch (NoneOf its) c = (\<not> list_ex (\<lambda>it. in_item it c) its)"

datatype atom = One cls | Star cls | Plus cls | Opt cls | LazyPlus cls | Bol | Eol
  | GroupOpen nat | GroupClose nat

type_synonym regex = "atom list list"

text \<open>Groups are kept as (number, start, end) positions in the subject string.\<close>

type_synonym captures = "(nat \<times> nat \<times> nat) list"

fun first_some :: "('k \<Rightarrow> 'a option) \<Rightarrow> 'k list \<Rightarrow> 'a option" where
  "first_some f [] = None"
| "first_some f (k # ks) = (case f k of Some r \<Rightarrow> Some r | None \<Rightarrow> first_some f ks)"

definition close_group :: "nat \<Rightarrow> nat \<Rightarrow> captures \<Rightarrow> captures" where
  "close_group g e caps = map (\<lambda>(g', b, e'). if g' = g then (g', b, e) else (g', b, e')) caps"

text \<open>
  \<open>match_here as pos rest caps\<close>: the atoms \<open>as\<close> matched at position \<open>pos\<close> of the
  subject, \<open>rest\<close> being the subject from \<open>pos\<close> on; the result is the end position and the
  groups.
\<close>

fun match_here :: "atom list \<Rightarrow> nat \<Rightarrow> ustring \<Rightarrow> captures \<Rightarrow> (nat \<times> captures) option" where
  "match_here [] pos rest caps = Some (pos, caps)"
| "match_here (One c # as) pos rest caps =
     (case rest of [] \<Rightarrow> None
      | x # rest' \<Rightarrow> if cmatch c x then match_here as (pos + 1) rest' caps else None)"
| "match_here (Star c # as) pos rest caps =
     first_some (\<lambda>k. match_here as (pos + k) (drop k rest) caps)
       (rev [0..<Suc (length (takeWhile (cmatch c) rest))])"
| "match_here (Plus c # as) pos rest caps =
     first_some (\<lambda>k. match_here as (pos + k) (drop k rest) caps)
       (rev [1..<Suc (length (takeWhile (cmatch c) rest))])"
| "match_here (Opt c # as) pos rest caps =
     first_some (\<lambda>k. match_here as (pos + k) (drop k rest) caps)
       (rev [0..<Suc (min 1 (length (takeWhile (cmatch c) rest)))])"
| "match_here (LazyPlus c # as) pos rest caps =
     first_some (\<lambda>k. match_here as (pos + k) (drop k rest) caps)
       [1..<Suc (length (takeWhile (cmatch c) rest))]"
| "match_here (Bol # as) pos rest caps = (if pos = 0 then match_here as pos rest caps else None)"
| "match_here (Eol # as) pos rest caps =
     (if rest = [] \<or> rest = [10] then match_here as pos rest caps else None)"
| "match_here (GroupOpen g # as) pos rest caps = match_here as pos rest ((g, pos, pos) # caps)"
| "match_here (GroupClose g # as) pos rest caps = match_here as pos rest (close_group g pos caps)"

record match_object =
  m_start :: nat
  m_end :: nat
  m_caps :: captures

definition match_at :: "regex \<Rightarrow> ustring \<Rightarrow> nat \<Rightarrow> match_object option" where
  "match_at rx s pos =
     map_option (\<lambda>(e, caps). \<lparr>m_start = pos, m_end = e, m_caps = caps\<rparr>)
       (first_some (\<lambda>alt. match_here alt pos (drop pos s) []) rx)"

text \<open>\<open>pattern.match(s)\<close> tries position 0 only; \<open>pattern.search(s)\<close> every position in turn.\<close>

definition re_match :: "regex \<Rightarrow> ustring \<Rightarrow> match_object option" where
  "re_match rx s = match_at rx s 0"

definition re_search :: "regex \<Rightarrow> ustring \<Rightarrow> match_object option" where
  "re_search rx s = first_some (match_at rx s) [0..<Suc (length s)]"

definition group :: "ustring \<Rightarrow> match_object \<Rightarrow> nat \<Rightarrow> ustring" where
  "group s m g =
     (if g = 0 then take (m_end m - m_start m) (drop (m_start m) s)
      else case find (\<lambda>(g', b, e). g' = g) (m_caps m) of
             Some (g', b, e) \<Rightarrow> take (e - b) (drop b s)
           | None \<Rightarrow> [])"

text \<open>
  \<open>re.sub(pattern, repl, s)\<close> for a replacement without group references: from left to
  right, the text of every match is replaced and the code points between matches are kept.
  After an empty match the next code point is kept and the scan goes on behind it.
\<close>

function re_sub_from :: "regex \<Rightarrow> ustring \<Rightarrow> ustring \<Rightarrow> nat \<Rightarrow> ustring" where
  "re_sub_from rx repl s pos =
     (if length s < pos then []
      else case match_at rx s pos of
        Some m \<Rightarrow>
          if pos < m_end m then repl @ re_sub_from rx repl s (m_end m)
          else repl @ take 1 (drop pos s) @ re_sub_from rx repl s (Suc pos)
      | None \<Rightarrow> take 1 (drop pos s) @ re_sub_from rx repl s (Suc pos))"
  by pat_completeness auto
termination
  by (relation "measure (\<lambda>(rx, repl, s, pos). Suc (length s) - pos)") auto

definition re_sub :: "regex \<Rightarrow> ustring \<Rightarrow> ustring \<Rightarrow> ustring" where
  "re_sub rx repl s = re_sub_from rx repl s 0"

declare re_sub_from.simps [simp del]

section \<open>Tables and classification (\<open>convert_m3u8_to_json.py\<close>, lines 18-99)\<close>

text \<open>
  String literals of the source are written with \<open>ascii\<close> for their runs of printable
  Basic Latin and with explicit code points elsewhere: U+23FA U+FE0F is the record-button
  emoji, U+26BD the football, U+274C U+2764 U+FE0F the cross mark and heart, U+2013 the en
  dash.
\<close>

definition ascii :: "string \<Rightarrow> ustring" where
  "ascii s = map of_char s"

definition IGNORED_CATEGORIES :: "ustring list" where
  "IGNORED_CATEGORIES =
     [[0x23FA, 0xFE0F] @ ascii '' ABERTO'',
      [0x23FA, 0xFE0F] @ ascii '' BAND'',
      [0x23FA, 0xFE0F] @ ascii '' SBT'',
      [0x23FA, 0xFE0F] @ ascii '' GLOBO'',
      [0x23FA, 0xFE0F] @ ascii '' RECORD'',
      [0x23FA, 0xFE0F] @ ascii '' HBO'',
      [0x23FA, 0xFE0F] @ ascii '' TELECINE'',
      [0x23FA, 0xFE0F] @ ascii '' DISCOVERY'',
      [0x23FA, 0xFE0F] @ ascii '' CINE SKY'',
      [0x23FA, 0xFE0F] @ ascii '' FILMES E SERIES'',
      [0x23FA, 0xFE0F] @ ascii '' NOTICIA'',
      [0x23FA, 0xFE0F] @ ascii '' NBA'',
      [0x23FA, 0xFE0F] @ ascii '' RUNTIME'',
      [0x23FA, 0xFE0F] @ ascii '' 4K'',
      ascii ''GLOBO (CENTRO-OESTE)'',
      ascii ''GLOBO (NORDESTE)'',
      ascii ''GLOBO (NORTE)'',
      ascii ''GLOBO (SUDESTE)'',
      ascii ''GLOBO (SUL)'',
      [0x26BD] @ ascii ''APPLETV'',
      [0x26BD] @ ascii ''DAZN'',
      [0x26BD] @ ascii ''DISNEY'',
      [0x26BD] @ ascii ''ESPORTE'',
      [0x26BD] @ ascii ''HBO'',
      [0x26BD] @ ascii ''PARAMOUNT'',
      [0x26BD] @ ascii ''PREMIERE'',
      [0x26BD] @ ascii ''PRIME'',
      [0x26BD] @ ascii '' COPINHA'',
      ascii ''A FAZENDA'',
      ascii ''BBB 20'',
      ascii ''BBB 2026'',
      ascii ''ESTRELA DA CASA'',
      [0xC1] @ ascii ''rea do cliente'',
      ascii ''JOGOS DE HOJE'',
      ascii ''R'' @ [0xC1] @ ascii ''DIOS FM'',
      ascii ''CANAIS:'']"

definition ADULT_KEYWORDS :: "ustring list" where
  "ADULT_KEYWORDS =
     [ascii ''ADULTOS'',
      ascii ''[HOT]'',
      ascii ''XXX'',
      ascii ''[Adulto]'',
      ascii ''ADULTO'',
      [0x274C, 0x2764, 0xFE0F]]"

definition SERIES_CATEGORY_KEYWORDS :: "ustring list" where
  "SERIES_CATEGORY_KEYWORDS =
     [ascii ''series'',
      ascii ''s'' @ [0xE9] @ ascii ''rie'',
      ascii ''novelas'',
      ascii ''doramas'',
      ascii ''programas'',
      ascii ''stand up'',
      ascii ''24h'']"

text \<open>Atoms for a run of literal code points, without and with \<open>re.IGNORECASE\<close>.\<close>

definition lits :: "ustring \<Rightarrow> atom list" where
  "lits s = map (\<lambda>c. One (Lit c)) s"

definition lits_i :: "ustring \<Rightarrow> atom list" where
  "lits_i s = map (\<lambda>c. One (LitI c)) s"

text \<open>
  \<open>EPISODE_PATTERNS\<close>, all with \<open>re.IGNORECASE\<close>:
  \<^verbatim>\<open>S\d+\s*E\d+\<close>, \<^verbatim>\<open>T\d+\s*E\d+\<close>, \<^verbatim>\<open>\d+\s*x\s*\d+\<close>, \<^verbatim>\<open>Temporada\s*\d+\<close>,
  \<^verbatim>\<open>Temp\.?\s*\d+\<close>, \<^verbatim>\<open>Season\s*\d+\<close>.
\<close>

definition EPISODE_PATTERNS :: "regex list" where
  "EPISODE_PATTERNS =
     [[lits_i (ascii ''S'') @ [Plus Digit, Star Space] @ lits_i (ascii ''E'') @ [Plus Digit]],
      [lits_i (ascii ''T'') @ [Plus Digit, Star Space] @ lits_i (ascii ''E'') @ [Plus Digit]],
      [[Plus Digit, Star Space] @ lits_i (ascii ''x'') @ [Star Space, Plus Digit]],
      [lits_i (ascii ''Temporada'') @ [Star Space, Plus Digit]],
      [lits_i (ascii ''Temp'') @ [Opt (Lit 46), Star Space, Plus Digit]],
      [lits_i (ascii ''Season'') @ [Star Space, Plus Digit]]]"

text \<open>
  \<open>SERIES_INFO_PATTERNS\<close>, all with \<open>re.IGNORECASE\<close>:
  \<^verbatim>\<open>^(.+?)\s*S(\d+)\s*E(\d+)\<close>, \<^verbatim>\<open>^(.+?)\s*T(\d+)\s*E(\d+)\<close>, \<^verbatim>\<open>^(.+?)\s*(\d+)\s*x\s*(\d+)\<close>.
\<close>

definition SERIES_INFO_PATTERNS :: "regex list" where
  "SERIES_INFO_PATTERNS =
     [[[Bol, GroupOpen 1, LazyPlus Dot, GroupClose 1, Star Space] @ lits_i (ascii ''S'') @
       [GroupOpen 2, Plus Digit, GroupClose 2, Star Space] @ lits_i (ascii ''E'') @
       [GroupOpen 3, Plus Digit, GroupClose 3]],
      [[Bol, GroupOpen 1, LazyPlus Dot, GroupClose 1, Star Space] @ lits_i (ascii ''T'') @
       [GroupOpen 2, Plus Digit, GroupClose 2, Star Space] @ lits_i (ascii ''E'') @
       [GroupOpen 3, Plus Digit, GroupClose 3]],
      [[Bol, GroupOpen 1, LazyPlus Dot, GroupClose 1, Star Space,
        GroupOpen 2, Plus Digit, GroupClose 2, Star Space] @ lits_i (ascii ''x'') @
       [Star Space, GroupOpen 3, Plus Digit, GroupClose 3]]]"

definition should_ignore_category :: "runtime \<Rightarrow> ustring \<Rightarrow> bool" where
  "should_ignore_category rt cat =
     (let upper = str_upper rt cat in
      list_ex (\<lambda>ignored.
          let upper_ignored = str_upper rt ignored in
          prefix upper_ignored upper \<or> upper = upper_ignored \<or> cat = ignored)
        IGNORED_CATEGORIES)"

definition is_series_by_category :: "runtime \<Rightarrow> ustring \<Rightarrow> bool" where
  "is_series_by_category rt cat =
     (let lower = str_lower rt cat in
      list_ex (\<lambda>keyword. sublist keyword lower) SERIES_CATEGORY_KEYWORDS)"

definition is_series_by_name :: "ustring \<Rightarrow> bool" where
  "is_series_by_name nm = list_ex (\<lambda>pattern. re_search pattern nm \<noteq> None) EPISODE_PATTERNS"

definition is_adult_content :: "ustring \<Rightarrow> ustring \<Rightarrow> bool" where
  "is_adult_content nm cat =
     (let combined = nm @ [32] @ cat in
      list_ex (\<lambda>keyword. sublist keyword combined) ADULT_KEYWORDS)"

text \<open>
  \<open>parse_series_info\<close>: the first pattern that matches at the start of the name decides;
  the two conversions of its tuple are evaluated from left to right and either may raise.
\<close>

definition parse_series_info :: "ustring \<Rightarrow> py_error + (ustring \<times> int \<times> int) option" where
  "parse_series_info nm =
     (case first_some (\<lambda>pattern. re_match pattern nm) SERIES_INFO_PATTERNS of
        None \<Rightarrow> Inr None
      | Some m \<Rightarrow>
          (case py_int (group nm m 2) of
             Inl e \<Rightarrow> Inl e
           | Inr season \<Rightarrow>
               (case py_int (group nm m 3) of
                  Inl e \<Rightarrow> Inl e
                | Inr episode \<Rightarrow> Inr (Some (strip (group nm m 1), season, episode)))))"

text \<open>
  \<open>clean_name\<close>: \<^verbatim>\<open>^\d+\s*[-...]\s*\<close> (hyphen or en dash), then with \<open>re.IGNORECASE\<close>
  \<^verbatim>\<open>\s*\[L\]\s*$\<close>, \<^verbatim>\<open>\s*\(DUB\)\s*\<close> and \<^verbatim>\<open>\s*\(LEG\)\s*\<close>, each replaced by the empty
  string, then \<open>strip\<close>.
\<close>

definition clean_name :: "ustring \<Rightarrow> ustring" where
  "clean_name nm =
     (let nm = re_sub [[Bol, Plus Digit, Star Space, One (OneOf [Ch 45, Ch 0x2013]), Star Space]]
                 [] nm;
          nm = re_sub [[Star Space] @ lits_i (ascii ''[L]'') @ [Star Space, Eol]] [] nm;
          nm = re_sub [[Star Space] @ lits_i (ascii ''(DUB)'') @ [Star Space]] [] nm;
          nm = re_sub [[Star Space] @ lits_i (ascii ''(LEG)'') @ [Star Space]] [] nm
      in strip nm)"

text \<open>
  \<open>generate_id\<close>: \<^verbatim>\<open>[^a-z0-9\s]\<close> removed from the lower-cased name, the result stripped,
  every run \<^verbatim>\<open>\s+\<close> replaced by a hyphen; then a hyphen and at most six digits of
  \<open>str(abs(hash(url)))\<close>.
\<close>

definition generate_id :: "runtime \<Rightarrow> ustring \<Rightarrow> ustring \<Rightarrow> ustring" where
  "generate_id rt nm u =
     (let normalized = strip (re_sub [[One (NoneOf [Rng 97 122, Rng 48 57, SetSpace])]] []
                                (str_lower rt nm));
          normalized = re_sub [[Plus Space]] (ascii ''-'') normalized;
          url_hash = str_nat (nat \<bar>str_hash rt u\<bar>);
          hash_part = (if length url_hash > 6 then take 6 url_hash else url_hash)
      in normalized @ ascii ''-'' @ hash_part)"

section \<open>\<open>normalize_category\<close> (lines 102-275) and \<open>category_to_filename\<close>\<close>

text \<open>
  The first part of \<open>normalize_category\<close>: one of the prefixes \<open>OND /\<close>, \<open>Series |\<close>,
  \<open>COLET\<close>U+00C2\<open>NEA:\<close> at the start makes the function remove every occurrence of it
  (\<open>str.replace\<close>) and strip the rest; after \<open>OND /\<close> a final \<open> -\<close> is cut off and the first
  code point is upper-cased.
\<close>

definition strip_prefixes :: "runtime \<Rightarrow> ustring \<Rightarrow> ustring" where
  "strip_prefixes rt cat =
     (if prefix (ascii ''OND /'') cat then
        let normalized = strip (replace cat (ascii ''OND /'') []);
            normalized = (if suffix (ascii '' -'') normalized
                          then strip (take (length normalized - 2) normalized) else normalized);
            normalized = (if normalized \<noteq> []
                          then str_upper rt [hd normalized] @ tl normalized else normalized)
        in if normalized \<noteq> [] then normalized else ascii ''Filmes''
      else if prefix (ascii ''Series |'') cat then
        let normalized = strip (replace cat (ascii ''Series |'') [])
        in if normalized \<noteq> [] then normalized else ascii ''S'' @ [0xE9] @ ascii ''ries''
      else if prefix (ascii ''COLET'' @ [0xC2] @ ascii ''NEA:'') cat then strip (replace cat (ascii ''COLET'' @ [0xC2] @ ascii ''NEA:'') [])
      else cat)"

text \<open>
  The rule for releases: \<^verbatim>\<open>re.search(r'20\d{2}', category)\<close> on the category itself, not
  on its lower-cased form.
\<close>

definition release_name :: "ustring \<Rightarrow> ustring" where
  "release_name cat =
     (case re_search [lits (ascii ''20'') @ [One Digit, One Digit]] cat of
        Some year_match \<Rightarrow> ascii ''Lan'' @ [0xE7] @ ascii ''amentos '' @ group cat year_match 0
      | None \<Rightarrow> ascii ''Lan'' @ [0xE7] @ ascii ''amentos'')"

text \<open>The chain of tests of lines 121-275, on the category left by the first part.\<close>

definition apply_rules :: "ustring \<Rightarrow> ustring \<Rightarrow> ustring" where
  "apply_rules cat lower =
     (if sublist (ascii ''netflix'') lower
      then ascii ''Netflix''
      else if sublist (ascii ''prime video'') lower \<or> sublist (ascii ''amazon prime'') lower
      then ascii ''Prime Video''
      else if sublist (ascii ''disney'') lower
      then ascii ''Disney+''
      else if sublist (ascii ''max'') lower \<and> \<not> sublist (ascii ''mad max'') lower
      then ascii ''Max''
      else if sublist (ascii ''hbo'') lower
      then ascii ''Max''
      else if sublist (ascii ''globoplay'') lower
      then ascii ''Globoplay''
      else if sublist (ascii ''paramount'') lower
      then ascii ''Paramount+''
      else if sublist (ascii ''apple'') lower
      then ascii ''Apple TV+''
      else if sublist (ascii ''star'') lower \<and> sublist (ascii ''star plus'') lower
      then ascii ''Star+''
      else if sublist (ascii ''discovery'') lower
      then ascii ''Discovery+''
      else if sublist (ascii ''crunchyroll'') lower
      then ascii ''Crunchyroll''
      else if sublist (ascii ''funimation'') lower
      then ascii ''Funimation''
      else if sublist (ascii ''directv'') lower
      then ascii ''DirecTV''
      else if sublist (ascii ''claro video'') lower
      then ascii ''Claro Video''
      else if sublist (ascii ''lionsgate'') lower
      then ascii ''Lionsgate''
      else if sublist (ascii ''plutotv'') lower
      then ascii ''PlutoTV''
      else if sublist (ascii ''play plus'') lower
      then ascii ''Play Plus''
      else if sublist (ascii ''amc'') lower
      then ascii ''AMC+''
      else if sublist (ascii ''brasil paralelo'') lower
      then ascii ''Brasil Paralelo''
      else if sublist (ascii ''sbt'') lower
      then ascii ''SBT''
      else if sublist (ascii ''univer'') lower
      then ascii ''Univer''
      else if sublist (ascii ''novela'') lower
      then ascii ''Novelas''
      else if sublist (ascii ''dorama'') lower
      then ascii ''Doramas''
      else if sublist (ascii ''anime'') lower
      then ascii ''Animes''
      else if sublist (ascii ''turca'') lower
      then ascii ''Turcas''
      else if sublist (ascii ''programas de tv'') lower \<or> ascii ''programas'' = lower
      then ascii ''Programas de TV''
      else if sublist (ascii ''stand up'') lower \<or> sublist (ascii ''stand-up'') lower
      then ascii ''Stand Up''
      else if sublist (ascii ''legendad'') lower
      then ascii ''Legendados''
      else if sublist (ascii ''document'') lower \<or> ascii ''docu'' = lower
      then ascii ''Document'' @ [0xE1] @ ascii ''rio''
      else if sublist (ascii ''com'') lower \<and> (sublist (ascii ''dia'') lower \<or> sublist (ascii ''edia'') lower \<or> sublist ([0xE9] @ ascii ''dia'') lower)
      then ascii ''Com'' @ [0xE9] @ ascii ''dia''
      else if sublist (ascii ''drama'') lower
      then ascii ''Drama''
      else if sublist (ascii ''terror'') lower
      then ascii ''Terror''
      else if prefix (ascii ''a'') lower \<and> (sublist ([0xE7, 0xE3] @ ascii ''o'') lower \<or> sublist (ascii ''cao'') lower)
      then ascii ''A'' @ [0xE7, 0xE3] @ ascii ''o''
      else if sublist (ascii ''suspense'') lower
      then ascii ''Suspense''
      else if sublist (ascii ''romance'') lower
      then ascii ''Romance''
      else if sublist (ascii ''anima'') lower \<and> (sublist ([0xE7, 0xE3] @ ascii ''o'') lower \<or> sublist (ascii ''cao'') lower)
      then ascii ''Anima'' @ [0xE7, 0xE3] @ ascii ''o''
      else if sublist (ascii ''fantasia'') lower \<or> (sublist (ascii ''fic'') lower \<and> sublist (ascii ''o'') lower)
      then ascii ''Fantasia''
      else if sublist (ascii ''faroeste'') lower
      then ascii ''Faroeste''
      else if sublist (ascii ''guerra'') lower
      then ascii ''Guerra''
      else if sublist (ascii ''aventura'') lower
      then ascii ''Aventura''
      else if sublist (ascii ''religio'') lower
      then ascii ''Religiosos''
      else if sublist (ascii ''nacion'') lower
      then ascii ''Nacionais''
      else if sublist (ascii ''crime'') lower
      then ascii ''Crime''
      else if sublist (ascii ''fam'') lower \<and> sublist (ascii ''lia'') lower
      then ascii ''Fam'' @ [0xED] @ ascii ''lia''
      else if sublist (ascii ''marvel'') lower \<or> sublist (ascii ''ucm'') lower
      then ascii ''Marvel''
      else if sublist (ascii ''4k'') lower \<or> sublist (ascii ''uhd'') lower
      then ascii ''UHD 4K''
      else if sublist (ascii ''infantil'') lower
      then ascii ''Infantil''
      else if sublist (ascii ''esporte'') lower
      then ascii ''Esportes''
      else if sublist (ascii ''show'') lower
      then ascii ''Shows''
      else if sublist (ascii ''cinema'') lower
      then ascii ''Cinema''
      else if sublist (ascii ''oscar'') lower
      then ascii ''Oscar''
      else if sublist (ascii ''hot'') lower \<or> sublist (ascii ''adult'') lower
      then ascii ''Adultos''
      else if sublist (ascii ''sugest'') lower \<or> sublist (ascii ''semana'') lower
      then ascii ''Sugest'' @ [0xE3] @ ascii ''o da Semana''
      else if sublist (ascii ''outra'') lower \<and> sublist (ascii ''produtora'') lower
      then ascii ''Outras Produtoras''
      else if sublist (ascii ''lan'' @ [0xE7] @ ascii ''amento'') lower \<or> sublist (ascii ''lancamento'') lower
      then release_name cat
      else if sublist (ascii ''dublagem'') lower \<and> sublist (ascii ''oficial'') lower
      then ascii ''Dublagem N'' @ [0xE3] @ ascii ''o Oficial''
      else if ascii ''alien'' = lower
      then ascii ''Colet'' @ [0xE2] @ ascii ''nea: Alien''
      else if sublist (ascii ''american pie'') lower
      then ascii ''Colet'' @ [0xE2] @ ascii ''nea: American Pie''
      else if sublist (ascii ''john wick'') lower \<or> sublist (ascii ''jhon wick'') lower
      then ascii ''Colet'' @ [0xE2] @ ascii ''nea: John Wick''
      else if sublist (ascii ''denzel'') lower
      then ascii ''Colet'' @ [0xE2] @ ascii ''nea: Denzel Washington''
      else if sublist (ascii ''mad max'') lower
      then ascii ''Colet'' @ [0xE2] @ ascii ''nea: Mad Max''
      else if sublist (ascii ''homem aranha'') lower \<or> sublist (ascii ''aranha'') lower
      then ascii ''Colet'' @ [0xE2] @ ascii ''nea: Homem Aranha''
      else if sublist (ascii ''jogos mortais'') lower
      then ascii ''Colet'' @ [0xE2] @ ascii ''nea: Jogos Mortais''
      else if sublist (ascii ''jogos vorazes'') lower
      then ascii ''Colet'' @ [0xE2] @ ascii ''nea: Jogos Vorazes''
      else if sublist (ascii ''mib'') lower \<or> sublist (ascii ''homens de preto'') lower
      then ascii ''Colet'' @ [0xE2] @ ascii ''nea: MIB''
      else if sublist (ascii ''exterminador'') lower
      then ascii ''Colet'' @ [0xE2] @ ascii ''nea: Exterminador''
      else if sublist (ascii ''shrek'') lower
      then ascii ''Colet'' @ [0xE2] @ ascii ''nea: Shrek''
      else if sublist (ascii ''p'') lower \<and> sublist (ascii ''nico'') lower \<and> sublist (ascii ''todo'') lower
      then ascii ''Colet'' @ [0xE2] @ ascii ''nea: Todo Mundo em P'' @ [0xE2] @ ascii ''nico''
      else if sublist (ascii ''toy story'') lower
      then ascii ''Colet'' @ [0xE2] @ ascii ''nea: Toy Story''
      else if sublist (ascii ''harry potter'') lower
      then ascii ''Colet'' @ [0xE2] @ ascii ''nea: Harry Potter''
      else if sublist (ascii ''senhor dos'') lower \<and> sublist (ascii ''an'') lower
      then ascii ''Colet'' @ [0xE2] @ ascii ''nea: Senhor dos An'' @ [0xE9] @ ascii ''is''
      else if sublist (ascii ''crep'') lower \<and> sublist (ascii ''sculo'') lower
      then ascii ''Colet'' @ [0xE2] @ ascii ''nea: Crep'' @ [0xFA] @ ascii ''sculo''
      else cat)"

definition normalize_category :: "runtime \<Rightarrow> ustring \<Rightarrow> ustring" where
  "normalize_category rt cat =
     (let cat = strip_prefixes rt cat; lower = str_lower rt cat in apply_rules cat lower)"

text \<open>
  The same rules as a decision table, in the order of the source: a test on the lower-cased
  category and the name returned when the test is the first to hold.
\<close>

definition CATEGORY_RULES :: "((ustring \<Rightarrow> bool) \<times> (ustring \<Rightarrow> ustring)) list" where
  "CATEGORY_RULES =
     [(\<lambda>lower. sublist (ascii ''netflix'') lower, \<lambda>cat. ascii ''Netflix''),
      (\<lambda>lower. sublist (ascii ''prime video'') lower \<or> sublist (ascii ''amazon prime'') lower, \<lambda>cat. ascii ''Prime Video''),
      (\<lambda>lower. sublist (ascii ''disney'') lower, \<lambda>cat. ascii ''Disney+''),
      (\<lambda>lower. sublist (ascii ''max'') lower \<and> \<not> sublist (ascii ''mad max'') lower, \<lambda>cat. ascii ''Max''),
      (\<lambda>lower. sublist (ascii ''hbo'') lower, \<lambda>cat. ascii ''Max''),
      (\<lambda>lower. sublist (ascii ''globoplay'') lower, \<lambda>cat. ascii ''Globoplay''),
      (\<lambda>lower. sublist (ascii ''paramount'') lower, \<lambda>cat. ascii ''Paramount+''),
      (\<lambda>lower. sublist (ascii ''apple'') lower, \<lambda>cat. ascii ''Apple TV+''),
      (\<lambda>lower. sublist (ascii ''star'') lower \<and> sublist (ascii ''star plus'') lower, \<lambda>cat. ascii ''Star+''),
      (\<lambda>lower. sublist (ascii ''discovery'') lower, \<lambda>cat. ascii ''Discovery+''),
      (\<lambda>lower. sublist (ascii ''crunchyroll'') lower, \<lambda>cat. ascii ''Crunchyroll''),
      (\<lambda>lower. sublist (ascii ''funimation'') lower, \<lambda>cat. ascii ''Funimation''),
      (\<lambda>lower. sublist (ascii ''directv'') lower, \<lambda>cat. ascii ''DirecTV''),
      (\<lambda>lower. sublist (ascii ''claro video'') lower, \<lambda>cat. ascii ''Claro Video''),
      (\<lambda>lower. sublist (ascii ''lionsgate'') lower, \<lambda>cat. ascii ''Lionsgate''),
      (\<lambda>lower. sublist (ascii ''plutotv'') lower, \<lambda>cat. ascii ''PlutoTV''),
      (\<lambda>lower. sublist (ascii ''play plus'') lower, \<lambda>cat. ascii ''Play Plus''),
      (\<lambda>lower. sublist (ascii ''amc'') lower, \<lambda>cat. ascii ''AMC+''),
      (\<lambda>lower. sublist (ascii ''brasil paralelo'') lower, \<lambda>cat. ascii ''Brasil Paralelo''),
      (\<lambda>lower. sublist (ascii ''sbt'') lower, \<lambda>cat. ascii ''SBT''),
      (\<lambda>lower. sublist (ascii ''univer'') lower, \<lambda>cat. ascii ''Univer''),
      (\<lambda>lower. sublist (ascii ''novela'') lower, \<lambda>cat. ascii ''Novelas''),
      (\<lambda>lower. sublist (ascii ''dorama'') lower, \<lambda>cat. ascii ''Doramas''),
      (\<lambda>lower. sublist (ascii ''anime'') lower, \<lambda>cat. ascii ''Animes''),
      (\<lambda>lower. sublist (ascii ''turca'') lower, \<lambda>cat. ascii ''Turcas''),
      (\<lambda>lower. sublist (ascii ''programas de tv'') lower \<or> ascii ''programas'' = lower, \<lambda>cat. ascii ''Programas de TV''),
      (\<lambda>lower. sublist (ascii ''stand up'') lower \<or> sublist (ascii ''stand-up'') lower, \<lambda>cat. ascii ''Stand Up''),
      (\<lambda>lower. sublist (ascii ''legendad'') lower, \<lambda>cat. ascii ''Legendados''),
      (\<lambda>lower. sublist (ascii ''document'') lower \<or> ascii ''docu'' = lower, \<lambda>cat. ascii ''Document'' @ [0xE1] @ ascii ''rio''),
      (\<lambda>lower. sublist (ascii ''com'') lower \<and> (sublist (ascii ''dia'') lower \<or> sublist (ascii ''edia'') lower \<or> sublist ([0xE9] @ ascii ''dia'') lower), \<lambda>cat. ascii ''Com'' @ [0xE9] @ ascii ''dia''),
      (\<lambda>lower. sublist (ascii ''drama'') lower, \<lambda>cat. ascii ''Drama''),
      (\<lambda>lower. sublist (ascii ''terror'') lower, \<lambda>cat. ascii ''Terror''),
      (\<lambda>lower. prefix (ascii ''a'') lower \<and> (sublist ([0xE7, 0xE3] @ ascii ''o'') lower \<or> sublist (ascii ''cao'') lower), \<lambda>cat. ascii ''A'' @ [0xE7, 0xE3] @ ascii ''o''),
      (\<lambda>lower. sublist (ascii ''suspense'') lower, \<lambda>cat. ascii ''Suspense''),
      (\<lambda>lower. sublist (ascii ''romance'') lower, \<lambda>cat. ascii ''Romance''),
      (\<lambda>lower. sublist (ascii ''anima'') lower \<and> (sublist ([0xE7, 0xE3] @ ascii ''o'') lower \<or> sublist (ascii ''cao'') lower), \<lambda>cat. ascii ''Anima'' @ [0xE7, 0xE3] @ ascii ''o''),
      (\<lambda>lower. sublist (ascii ''fantasia'') lower \<or> (sublist (ascii ''fic'') lower \<and> sublist (ascii ''o'') lower), \<lambda>cat. ascii ''Fantasia''),
      (\<lambda>lower. sublist (ascii ''faroeste'') lower, \<lambda>cat. ascii ''Faroeste''),
      (\<lambda>lower. sublist (ascii ''guerra'') lower, \<lambda>cat. ascii ''Guerra''),
      (\<lambda>lower. sublist (ascii ''aventura'') lower, \<lambda>cat. ascii ''Aventura''),
      (\<lambda>lower. sublist (ascii ''religio'') lower, \<lambda>cat. ascii ''Religiosos''),
      (\<lambda>lower. sublist (ascii ''nacion'') lower, \<lambda>cat. ascii ''Nacionais''),
      (\<lambda>lower. sublist (ascii ''crime'') lower, \<lambda>cat. ascii ''Crime''),
      (\<lambda>lower. sublist (ascii ''fam'') lower \<and> sublist (ascii ''lia'') lower, \<lambda>cat. ascii ''Fam'' @ [0xED] @ ascii ''lia''),
      (\<lambda>lower. sublist (ascii ''marvel'') lower \<or> sublist (ascii ''ucm'') lower, \<lambda>cat. ascii ''Marvel''),
      (\<lambda>lower. sublist (ascii ''4k'') lower \<or> sublist (ascii ''uhd'') lower, \<lambda>cat. ascii ''UHD 4K''),
      (\<lambda>lower. sublist (ascii ''infantil'') lower, \<lambda>cat. ascii ''Infantil''),
      (\<lambda>lower. sublist (ascii ''esporte'') lower, \<lambda>cat. ascii ''Esportes''),
      (\<lambda>lower. sublist (ascii ''show'') lower, \<lambda>cat. ascii ''Shows''),
      (\<lambda>lower. sublist (ascii ''cinema'') lower, \<lambda>cat. ascii ''Cinema''),
      (\<lambda>lower. sublist (ascii ''oscar'') lower, \<lambda>cat. ascii ''Oscar''),
      (\<lambda>lower. sublist (ascii ''hot'') lower \<or> sublist (ascii ''adult'') lower, \<lambda>cat. ascii ''Adultos''),
      (\<lambda>lower. sublist (ascii ''sugest'') lower \<or> sublist (ascii ''semana'') lower, \<lambda>cat. ascii ''Sugest'' @ [0xE3] @ ascii ''o da Semana''),
      (\<lambda>lower. sublist (ascii ''outra'') lower \<and> sublist (ascii ''produtora'') lower, \<lambda>cat. ascii ''Outras Produtoras''),
      (\<lambda>lower. sublist (ascii ''lan'' @ [0xE7] @ ascii ''amento'') lower \<or> sublist (ascii ''lancamento'') lower, \<lambda>cat. release_name cat),
      (\<lambda>lower. sublist (ascii ''dublagem'') lower \<and> sublist (ascii ''oficial'') lower, \<lambda>cat. ascii ''Dublagem N'' @ [0xE3] @ ascii ''o Oficial''),
      (\<lambda>lower. ascii ''alien'' = lower, \<lambda>cat. ascii ''Colet'' @ [0xE2] @ ascii ''nea: Alien''),
      (\<lambda>lower. sublist (ascii ''american pie'') lower, \<lambda>cat. ascii ''Colet'' @ [0xE2] @ ascii ''nea: American Pie''),
      (\<lambda>lower. sublist (ascii ''john wick'') lower \<or> sublist (ascii ''jhon wick'') lower, \<lambda>cat. ascii ''Colet'' @ [0xE2] @ ascii ''nea: John Wick''),
      (\<lambda>lower. sublist (ascii ''denzel'') lower, \<lambda>cat. ascii ''Colet'' @ [0xE2] @ ascii ''nea: Denzel Washington''),
      (\<lambda>lower. sublist (ascii ''mad max'') lower, \<lambda>cat. ascii ''Colet'' @ [0xE2] @ ascii ''nea: Mad Max''),
      (\<lambda>lower. sublist (ascii ''homem aranha'') lower \<or> sublist (ascii ''aranha'') lower, \<lambda>cat. ascii ''Colet'' @ [0xE2] @ ascii ''nea: Homem Aranha''),
      (\<lambda>lower. sublist (ascii ''jogos mortais'') lower, \<lambda>cat. ascii ''Colet'' @ [0xE2] @ ascii ''nea: Jogos Mortais''),
      (\<lambda>lower. sublist (ascii ''jogos vorazes'') lower, \<lambda>cat. ascii ''Colet'' @ [0xE2] @ ascii ''nea: Jogos Vorazes''),
      (\<lambda>lower. sublist (ascii ''mib'') lower \<or> sublist (ascii ''homens de preto'') lower, \<lambda>cat. ascii ''Colet'' @ [0xE2] @ ascii ''nea: MIB''),
      (\<lambda>lower. sublist (ascii ''exterminador'') lower, \<lambda>cat. ascii ''Colet'' @ [0xE2] @ ascii ''nea: Exterminador''),
      (\<lambda>lower. sublist (ascii ''shrek'') lower, \<lambda>cat. ascii ''Colet'' @ [0xE2] @ ascii ''nea: Shrek''),
      (\<lambda>lower. sublist (ascii ''p'') lower \<and> sublist (ascii ''nico'') lower \<and> sublist (ascii ''todo'') lower, \<lambda>cat. ascii ''Colet'' @ [0xE2] @ ascii ''nea: Todo Mundo em P'' @ [0xE2] @ ascii ''nico''),
      (\<lambda>lower. sublist (ascii ''toy story'') lower, \<lambda>cat. ascii ''Colet'' @ [0xE2] @ ascii ''nea: Toy Story''),
      (\<lambda>lower. sublist (ascii ''harry potter'') lower, \<lambda>cat. ascii ''Colet'' @ [0xE2] @ ascii ''nea: Harry Potter''),
      (\<lambda>lower. sublist (ascii ''senhor dos'') lower \<and> sublist (ascii ''an'') lower, \<lambda>cat. ascii ''Colet'' @ [0xE2] @ ascii ''nea: Senhor dos An'' @ [0xE9] @ ascii ''is''),
      (\<lambda>lower. sublist (ascii ''crep'') lower \<and> sublist (ascii ''sculo'') lower, \<lambda>cat. ascii ''Colet'' @ [0xE2] @ ascii ''nea: Crep'' @ [0xFA] @ ascii ''sculo'')]"

definition first_rule :: "ustring \<Rightarrow> ustring \<Rightarrow> ustring option" where
  "first_rule cat lower =
     map_option (\<lambda>(test, result). result cat) (find (\<lambda>(test, result). test lower) CATEGORY_RULES)"

text \<open>
  \<open>category_to_filename\<close>: \<^verbatim>\<open>[^a-z0-9]+\<close> replaced by an underscore in the lower-cased
  category, then \<^verbatim>\<open>^_+|_+$\<close> removed.
\<close>

definition category_to_filename :: "runtime \<Rightarrow> ustring \<Rightarrow> ustring" where
  "category_to_filename rt cat =
     (let filename = re_sub [[Plus (NoneOf [Rng 97 122, Rng 48 57])]] (ascii ''_'')
                       (str_lower rt cat)
      in re_sub [[Bol, Plus (Lit 95)], [Plus (Lit 95), Eol]] [] filename)"

section \<open>The line lexer \<open>parse_m3u8_file\<close> (lines 284-366)\<close>

text \<open>
  The three variables carried from a metadata line to its URL line, and the list of items
  built so far. \<open>None\<close> is Python's \<open>None\<close>.
\<close>

record lexer_state =
  current_name :: "ustring option"
  current_category :: "ustring option"
  current_logo :: "ustring option"
  items :: "entry list"

definition reset_pending :: "lexer_state \<Rightarrow> lexer_state" where
  "reset_pending st = st\<lparr>current_name := None, current_category := None, current_logo := None\<rparr>"

text \<open>
  The searches of a metadata line: \<^verbatim>\<open>group-title="([^"]*)"\<close>, \<^verbatim>\<open>tvg-logo="([^"]*)"\<close> and
  \<^verbatim>\<open>,(.+)$\<close>.
\<close>

definition rx_group_title :: regex where
  "rx_group_title =
     [lits (ascii ''group-title='' @ [34]) @
      [GroupOpen 1, Star (NoneOf [Ch 34]), GroupClose 1, One (Lit 34)]]"

definition rx_tvg_logo :: regex where
  "rx_tvg_logo =
     [lits (ascii ''tvg-logo='' @ [34]) @
      [GroupOpen 1, Star (NoneOf [Ch 34]), GroupClose 1, One (Lit 34)]]"

definition rx_name :: regex where
  "rx_name = [[One (Lit 44), GroupOpen 1, Plus Dot, GroupClose 1, Eol]]"

definition read_extinf :: "lexer_state \<Rightarrow> ustring \<Rightarrow> lexer_state" where
  "read_extinf st line =
     st\<lparr>current_category :=
          (case re_search rx_group_title line of
             Some group_match \<Rightarrow> Some (group line group_match 1)
           | None \<Rightarrow> Some (ascii ''Outros'')),
        current_logo :=
          (case re_search rx_tvg_logo line of
             Some logo_match \<Rightarrow> Some (group line logo_match 1)
           | None \<Rightarrow> None),
        current_name :=
          (case re_search rx_name line of
             Some name_match \<Rightarrow> Some (strip (group line name_match 1))
           | None \<Rightarrow> None)\<rparr>"

text \<open>Truth of an optional string: \<open>None\<close> and the empty string are false.\<close>

definition truthy :: "ustring option \<Rightarrow> bool" where
  "truthy v = (case v of None \<Rightarrow> False | Some s \<Rightarrow> s \<noteq> [])"

text \<open>\<open>v or d\<close> for an optional string \<open>v\<close>.\<close>

definition or_else :: "ustring option \<Rightarrow> ustring \<Rightarrow> ustring" where
  "or_else v d = (case v of None \<Rightarrow> d | Some s \<Rightarrow> if s \<noteq> [] then s else d)"

definition make_item :: "runtime \<Rightarrow> ustring \<Rightarrow> ustring \<Rightarrow> ustring option \<Rightarrow> ustring \<Rightarrow> py_error + entry" where
  "make_item rt nm cat lg u =
     (let cleaned_name = clean_name nm;
          is_adult = is_adult_content nm cat;
          is_series = (is_series_by_category rt cat \<or> is_series_by_name nm)
      in case parse_series_info nm of
           Inl e \<Rightarrow> Inl e
         | Inr series_info' \<Rightarrow>
             (let content_type = (if is_series \<or> series_info' \<noteq> None then Series else Movie);
                  normalized_category = normalize_category rt cat
              in Inr \<lparr>item_id = generate_id rt cleaned_name u,
                      name = cleaned_name,
                      url = u,
                      item_type = content_type,
                      logo = (if truthy lg then lg else None),
                      isAdult = is_adult,
                      series_info = series_info',
                      category = normalized_category\<rparr>))"

text \<open>
  One iteration of the loop over the lines of the file: the state after it, or the exception
  that ends the run.
\<close>

definition lexer_step :: "runtime \<Rightarrow> lexer_state \<Rightarrow> ustring \<Rightarrow> py_error + lexer_state" where
  "lexer_step rt st raw_line =
     (let line = strip raw_line in
      if prefix (ascii ''#EXTINF:'') line then Inr (read_extinf st line)
      else if prefix (ascii ''http'') line \<and> truthy (current_name st) then
        (let u = line in
         if suffix (ascii ''.ts'') (str_lower rt u) then Inr (reset_pending st)
         else
           (let cat = or_else (current_category st) (ascii ''Outros'') in
            if should_ignore_category rt cat then Inr (reset_pending st)
            else
              (case make_item rt (the (current_name st)) cat (current_logo st) u of
                 Inl e \<Rightarrow> Inl e
               | Inr it \<Rightarrow> Inr (reset_pending (st\<lparr>items := items st @ [it]\<rparr>)))))
      else Inr st)"

fun lexer_loop :: "runtime \<Rightarrow> lexer_state \<Rightarrow> ustring list \<Rightarrow> py_error + lexer_state" where
  "lexer_loop rt st [] = Inr st"
| "lexer_loop rt st (raw_line # rest) =
     (case lexer_step rt st raw_line of
        Inl e \<Rightarrow> Inl e
      | Inr st' \<Rightarrow> lexer_loop rt st' rest)"

text \<open>
  The file is opened in text mode, so \<open>f.read()\<close> returns its decoded text with every
  line ending (a carriage return and a line feed, or a carriage return alone) turned into one
  line feed.
\<close>

fun universal_newlines :: "ustring \<Rightarrow> ustring" where
  "universal_newlines [] = []"
| "universal_newlines [c] = (if c = 13 then [10] else [c])"
| "universal_newlines (c # d # cs) =
     (if c = 13 \<and> d = 10 then 10 # universal_newlines cs
      else if c = 13 then 10 # universal_newlines (d # cs)
      else c # universal_newlines (d # cs))"

text \<open>
  \<open>parse_m3u8_file\<close>, from the decoded text of the file to the entries read from it.
\<close>

definition parse_m3u8_file :: "runtime \<Rightarrow> ustring \<Rightarrow> py_error + entry list" where
  "parse_m3u8_file rt file_text =
     (let content = universal_newlines file_text;
          lines = split content 10
      in case lexer_loop rt
                \<lparr>current_name = None, current_category = None, current_logo = None, items = []\<rparr>
                lines of
           Inl e \<Rightarrow> Inl e
         | Inr st \<Rightarrow> Inr (items st))"
section \<open>Grouping, partitioning and the index (\<open>main\<close>, lines 369-542)\<close>

definition MAX_ITEMS_PER_FILE :: nat where
  "MAX_ITEMS_PER_FILE = 5000"

text \<open>
  \<open>by_category\<close> is a dictionary, iterated in insertion order: an association list whose
  keys are in the order of their first insertion.
  \<open>by_category.setdefault(category, []).append(item)\<close>:
\<close>

fun setdefault_append :: "(ustring \<times> item list) list \<Rightarrow> ustring \<Rightarrow> item \<Rightarrow> (ustring \<times> item list) list" where
  "setdefault_append [] k v = [(k, [v])]"
| "setdefault_append ((k', vs) # d) k v =
     (if k' = k then (k', vs @ [v]) # d else (k', vs) # setdefault_append d k v)"

definition group_by_category :: "entry list \<Rightarrow> (ustring \<times> item list) list" where
  "group_by_category unique =
     foldl (\<lambda>by_category e. setdefault_append by_category (category e) (item.truncate e)) []
       unique"

text \<open>The JSON documents the program writes, by their keys.\<close>

record index_entry =
  ie_id :: ustring
  ie_name :: ustring
  movieCount :: nat
  seriesCount :: nat
  adultCount :: nat
  totalCount :: nat
  pages :: "nat option"
  hasMovies :: "bool option"

record index_data =
  version :: nat
  generatedAt :: ustring
  totalMovies :: nat
  totalSeries :: nat
  totalAdult :: nat
  maxItemsPerPage :: nat
  categories :: "index_entry list"

datatype document =
    CategoryData (doc_category: ustring) (doc_movies: "item list") (doc_series: "item list")
  | PageData (doc_category: ustring) (doc_page: nat) (doc_totalPages: nat)
      (doc_movies: "item list") (doc_series: "item list")
  | AdultData (doc_category: ustring) (doc_items: "item list")
  | IndexData index_data

type_synonym file_write = "ustring \<times> document"

text \<open>
  \<open>[xs[i:i+n] for i in range(0, len(xs), n)]\<close>, for a positive \<open>n\<close>: the start indices are
  the multiples of \<open>n\<close> below \<open>len(xs)\<close>.
\<close>

definition pages_of :: "nat \<Rightarrow> 'a list \<Rightarrow> 'a list list" where
  "pages_of n xs =
     map (\<lambda>i. take n (drop i xs)) (map (\<lambda>k. k * n) [0..<(length xs + n - 1) div n])"

text \<open>The loop over \<open>series_pages\<close> with its counter \<open>page_idx\<close>.\<close>

fun write_pages :: "ustring \<Rightarrow> ustring \<Rightarrow> nat \<Rightarrow> nat \<Rightarrow> item list list \<Rightarrow> file_write list" where
  "write_pages filename_base cat total_pages page_idx [] = []"
| "write_pages filename_base cat total_pages page_idx (page_series # rest) =
     (filename_base @ ascii ''_p'' @ str_nat page_idx @ ascii ''.json'',
      PageData cat page_idx total_pages [] page_series)
     # write_pages filename_base cat total_pages (page_idx + 1) rest"

text \<open>The three lists a category's items are separated into (lines 433-435).\<close>

definition movies_of :: "item list \<Rightarrow> item list" where
  "movies_of its = filter (\<lambda>m. item_type m = Movie \<and> \<not> isAdult m) its"

definition series_of :: "item list \<Rightarrow> item list" where
  "series_of its = filter (\<lambda>m. item_type m = Series \<and> \<not> isAdult m) its"

definition adult_of :: "item list \<Rightarrow> item list" where
  "adult_of its = filter (\<lambda>m. isAdult m) its"

text \<open>
  The body of the loop over \<open>by_category.items()\<close>: the files written for one category, in
  the order they are written, and the entry appended to \<open>category_index\<close>.
\<close>

definition process_category :: "runtime \<Rightarrow> ustring \<times> item list \<Rightarrow> file_write list \<times> index_entry" where
  "process_category rt grp =
     (let cat = fst grp; its = snd grp;
          filename_base = category_to_filename rt cat;
          movies = movies_of its;
          series = series_of its;
          adult = adult_of its;
          total_items = length movies + length series + length adult;
          adult_files =
            (if adult \<noteq> []
             then [(filename_base @ ascii ''_adult.json'', AdultData cat adult)] else [])
      in if total_items > MAX_ITEMS_PER_FILE then
           (let series_pages = pages_of MAX_ITEMS_PER_FILE series;
                movies_pages = pages_of MAX_ITEMS_PER_FILE movies
            in (write_pages filename_base cat (max (length series_pages) (length movies_pages))
                  1 series_pages @
                (if movies \<noteq> []
                 then [(filename_base @ ascii ''_movies.json'', CategoryData cat movies [])]
                 else []) @
                adult_files,
                \<lparr>ie_id = filename_base, ie_name = cat, movieCount = length movies,
                 seriesCount = length series, adultCount = length adult,
                 totalCount = total_items, pages = Some (max (length series_pages) 1),
                 hasMovies = Some (length movies > 0)\<rparr>))
         else
           ((filename_base @ ascii ''.json'', CategoryData cat movies series) # adult_files,
            \<lparr>ie_id = filename_base, ie_name = cat, movieCount = length movies,
             seriesCount = length series, adultCount = length adult,
             totalCount = total_items, pages = None, hasMovies = None\<rparr>))"

text \<open>
  \<open>category_index.sort(key=lambda c: c['totalCount'], reverse=True)\<close>: Python's sort is
  stable, also with \<open>reverse=True\<close>; so is insertion sort on the negated key.
\<close>

definition sort_index :: "index_entry list \<Rightarrow> index_entry list" where
  "sort_index category_index = sort_key (\<lambda>c. - int (totalCount c)) category_index"

definition build_index :: "runtime \<Rightarrow> index_entry list \<Rightarrow> index_data" where
  "build_index rt category_index =
     (let category_index = sort_index category_index
      in \<lparr>version = 2,
          generatedAt = now_isoformat rt,
          totalMovies = sum_list (map movieCount category_index),
          totalSeries = sum_list (map seriesCount category_index),
          totalAdult = sum_list (map adultCount category_index),
          maxItemsPerPage = MAX_ITEMS_PER_FILE,
          categories = category_index\<rparr>)"

text \<open>
  \<open>main\<close>, from the decoded texts of the two playlist files (\<open>None\<close> for a file that does
  not exist) to the files written, in the order they are written; \<open>index.json\<close> is the
  last. Both playlists are read before anything is written, so a run ended by an exception
  has written nothing. A file written twice holds what was written last.
\<close>

fun read_all :: "runtime \<Rightarrow> ustring option list \<Rightarrow> py_error + entry list" where
  "read_all rt [] = Inr []"
| "read_all rt (f # fs) =
     (case (case f of Some file_text \<Rightarrow> parse_m3u8_file rt file_text | None \<Rightarrow> Inr []) of
        Inl e \<Rightarrow> Inl e
      | Inr its \<Rightarrow>
          (case read_all rt fs of
             Inl e \<Rightarrow> Inl e
           | Inr rest \<Rightarrow> Inr (its @ rest)))"

definition category_files :: "runtime \<Rightarrow> entry list \<Rightarrow> file_write list" where
  "category_files rt all_items =
     concat (map (\<lambda>g. fst (process_category rt g))
               (group_by_category (unique_items (remove_duplicates all_items))))"

definition category_index :: "runtime \<Rightarrow> entry list \<Rightarrow> index_entry list" where
  "category_index rt all_items =
     map (\<lambda>g. snd (process_category rt g))
       (group_by_category (unique_items (remove_duplicates all_items)))"

definition main :: "runtime \<Rightarrow> ustring option list \<Rightarrow> py_error + file_write list" where
  "main rt files =
     (case read_all rt files of
        Inl e \<Rightarrow> Inl e
      | Inr all_items \<Rightarrow>
          Inr (category_files rt all_items @
               [(ascii ''index.json'', IndexData (build_index rt (category_index rt all_items)))]))"

text \<open>The items a document holds, and the items of all documents of a list of files.\<close>

fun items_of :: "document \<Rightarrow> item list" where
  "items_of (CategoryData c ms ss) = ms @ ss"
| "items_of (PageData c p t ms ss) = ms @ ss"
| "items_of (AdultData c its) = its"
| "items_of (IndexData ix) = []"

definition emitted_items :: "file_write list \<Rightarrow> item list" where
  "emitted_items ws = concat (map (\<lambda>w. items_of (snd w)) ws)"


text \<open>
  A playlist none of whose lines is longer than the limit of \<open>int()\<close>: no title in it can
  hold a number that \<open>int()\<close> refuses.
\<close>

definition short_lines :: "ustring \<Rightarrow> bool" where
  "short_lines file_text =
     list_all (\<lambda>l. length l \<le> int_max_str_digits) (split (universal_newlines file_text) 10)"

text \<open>The pending name of a lexer state is within that limit.\<close>

definition pending_short :: "lexer_state \<Rightarrow> bool" where
  "pending_short st \<longleftrightarrow> (\<forall>n. current_name st = Some n \<longrightarrow> length n \<le> int_max_str_digits)"


text \<open>
  A playlist for the concrete runs: three entries, the first with a line ending of two code
  points, the third with the url of the first and no \<open>group-title\<close>.
\<close>

definition sample_playlist :: ustring where
  "sample_playlist =
     ascii ''#EXTINF:-1 group-title='' @ [34] @ ascii ''Filmes | Acao'' @ [34] @
       ascii '',Matrix'' @ [13, 10] @
     ascii ''http://h/1.mp4'' @ [10] @
     ascii ''#EXTINF:-1 group-title='' @ [34] @ ascii ''Series | Drama'' @ [34] @
       ascii '',Breaking Bad S02E05'' @ [10] @
     ascii ''http://h/2.mp4'' @ [10] @
     ascii ''#EXTINF:-1,Copy'' @ [10] @
     ascii ''http://h/1.mp4''"

text \<open>An item of the given type and adult flag, for the concrete runs.\<close>

definition sample_item :: "content_type \<Rightarrow> bool \<Rightarrow> ustring \<Rightarrow> item" where
  "sample_item t adult u =
     \<lparr>item_id = u, name = u, url = u, item_type = t, logo = None, isAdult = adult,
      series_info = None\<rparr>"
lemma first_occurrences_Nil: "first_occurrences S [] = []"
  by (simp add: first_occurrences_def)

lemma first_occurrences_Cons:
  "first_occurrences S (x # xs) =
     (if url x \<in> S then first_occurrences S xs
      else x # first_occurrences (insert (url x) S) xs)"
proof -
  have shift: "[0..<length (x # xs)] = 0 # map Suc [0..<length xs]"
    by (simp add: upt_conv_Cons map_Suc_upt del: upt_Suc)
  have all_Suc: "\<And>P i. (\<forall>j<Suc i. P j) = (P 0 \<and> (\<forall>j<i. P (Suc j)))"
    by (metis less_Suc_eq_0_disj)
  show ?thesis
  proof (cases "url x \<in> S")
    case True
    have "filter (\<lambda>i. url (xs ! i) \<notin> S \<and> url x \<noteq> url (xs ! i) \<and>
                    (\<forall>j<i. url (xs ! j) \<noteq> url (xs ! i))) [0..<length xs] =
          filter (\<lambda>i. url (xs ! i) \<notin> S \<and> (\<forall>j<i. url (xs ! j) \<noteq> url (xs ! i)))
            [0..<length xs]"
      using True by (intro filter_cong) auto
    then show ?thesis
      unfolding first_occurrences_def shift
      using True by (simp add: filter_map comp_def all_Suc)
  next
    case False
    have "filter (\<lambda>i. url (xs ! i) \<notin> S \<and> url x \<noteq> url (xs ! i) \<and>
                    (\<forall>j<i. url (xs ! j) \<noteq> url (xs ! i))) [0..<length xs] =
          filter (\<lambda>i. url (xs ! i) \<notin> insert (url x) S \<and>
                    (\<forall>j<i. url (xs ! j) \<noteq> url (xs ! i))) [0..<length xs]"
      by (intro filter_cong) auto
    then show ?thesis
      unfolding first_occurrences_def shift
      using False by (simp add: filter_map comp_def all_Suc)
  qed
qed

lemma foldl_dedup_step:
  "foldl dedup_step st xs =
     \<lparr>seen_urls = seen_urls st \<union> url ` set xs,
      unique_items = unique_items st @ first_occurrences (seen_urls st) xs,
      duplicates = duplicates st + (length xs - length (first_occurrences (seen_urls st) xs))\<rparr>"
proof (induction xs arbitrary: st)
  case Nil
  show ?case by (simp add: first_occurrences_Nil)
next
  case (Cons x xs)
  have le: "\<And>S. length (first_occurrences S xs) \<le> length xs"
    unfolding first_occurrences_def
    by (metis (no_types, lifting) diff_zero length_filter_le length_map length_upt)
  show ?case
  proof (cases "url x \<in> seen_urls st")
    case True
    then have s: "dedup_step st x = st\<lparr>duplicates := duplicates st + 1\<rparr>"
      by (simp add: dedup_step_def)
    show ?thesis
      using True le[of "seen_urls st"]
      by (simp add: s Cons.IH first_occurrences_Cons Suc_diff_le insert_absorb)
  next
    case False
    then have s: "dedup_step st x =
        st\<lparr>seen_urls := insert (url x) (seen_urls st), unique_items := unique_items st @ [x]\<rparr>"
      by (simp add: dedup_step_def)
    show ?thesis
      using False by (simp add: s Cons.IH first_occurrences_Cons)
  qed
qed

lemma url_first_occurrences:
  "url ` set (first_occurrences S xs) = url ` set xs - S"
  by (induction xs arbitrary: S) (auto simp: first_occurrences_Nil first_occurrences_Cons)

lemma distinct_first_occurrences:
  "distinct (map url (first_occurrences S xs))"
proof (induction xs arbitrary: S)
  case Nil
  show ?case by (simp add: first_occurrences_Nil)
next
  case (Cons x xs)
  have "url x \<notin> url ` set (first_occurrences (insert (url x) S) xs)"
    by (simp add: url_first_occurrences)
  then show ?case
    using Cons.IH by (simp add: first_occurrences_Cons)
qed

lemma subseq_first_occurrences: "subseq (first_occurrences S xs) xs"
  by (induction xs arbitrary: S) (auto simp: first_occurrences_Nil first_occurrences_Cons)


section \<open>Pages\<close>

lemma pages_of_Nil: "pages_of n [] = []"
  by (cases n) (simp_all add: pages_of_def)

lemma pages_count_step:
  assumes "0 < n" "0 < (m::nat)"
  shows "(m + n - 1) div n = Suc ((m - n + n - 1) div n)"
proof (cases "n \<le> m")
  case True
  then have a: "m + n - 1 = (m - 1) + n" and b: "m - n + n - 1 = m - 1" using assms by simp_all
  have n: "n \<noteq> 0" using assms by simp
  show ?thesis unfolding a b div_add_self2[OF n] by simp
next
  case False
  then have a: "m + n - 1 = n + (m - 1)" and b: "m - 1 < n" and c: "m - n + n - 1 = n - 1"
    using assms by simp_all
  have n: "n \<noteq> 0" using assms by simp
  have d: "(n - 1) div n = 0" using assms by simp
  show ?thesis unfolding a c div_add_self1[OF n] d using b by simp
qed

lemma pages_of_rec:
  assumes "0 < n" "xs \<noteq> []"
  shows "pages_of n xs = take n xs # pages_of n (drop n xs)"
proof -
  have "[0..<(length xs + n - 1) div n] = 0 # map Suc [0..<(length xs - n + n - 1) div n]"
    using pages_count_step[of n "length xs"] assms
    by (simp add: upt_conv_Cons map_Suc_upt del: upt_Suc)
  then show ?thesis
    by (simp add: pages_of_def comp_def drop_drop add.commute)
qed

lemma concat_pages_of: "0 < n \<Longrightarrow> concat (pages_of n xs) = xs"
proof (induction "length xs" arbitrary: xs rule: less_induct)
  case less
  show ?case
  proof (cases "xs = []")
    case True then show ?thesis by (simp add: pages_of_Nil)
  next
    case False
    then have "length (drop n xs) < length xs" using less.prems by simp
    then show ?thesis using less False by (simp add: pages_of_rec)
  qed
qed

lemma length_pages_of: "length (pages_of n xs) = (length xs + n - 1) div n"
  by (simp add: pages_of_def)

lemma nth_pages_of:
  "i < length (pages_of n xs) \<Longrightarrow> pages_of n xs ! i = take n (drop (i * n) xs)"
  by (simp add: pages_of_def)

lemma write_pages_eq:
  "write_pages filename_base cat t k ps =
     map (\<lambda>i. (filename_base @ ascii ''_p'' @ str_nat (k + i) @ ascii ''.json'',
               PageData cat (k + i) t [] (ps ! i)))
       [0..<length ps]"
proof (induction ps arbitrary: k)
  case Nil
  show ?case by simp
next
  case (Cons p ps)
  have "[0..<length (p # ps)] = 0 # map Suc [0..<length ps]"
    by (simp add: upt_conv_Cons map_Suc_upt del: upt_Suc)
  then show ?case
    by (simp add: Cons.IH comp_def)
qed

lemma write_pages_of:
  "write_pages filename_base cat t 1 (pages_of n xs) =
     map (\<lambda>i. (filename_base @ ascii ''_p'' @ str_nat (i + 1) @ ascii ''.json'',
               PageData cat (i + 1) t [] (take n (drop (i * n) xs))))
       [0..<(length xs + n - 1) div n]"
  unfolding write_pages_eq length_pages_of
  by (rule map_cong[OF refl]) (simp add: nth_pages_of length_pages_of add.commute)

lemma series_of_write_pages:
  "map (\<lambda>w. doc_series (snd w)) (write_pages filename_base cat t k ps) = ps"
  by (induction ps arbitrary: k) simp_all

lemma partition_length:
  "length (movies_of its) + length (series_of its) + length (adult_of its) = length its"
proof (induction its)
  case Nil
  show ?case by (simp add: movies_of_def series_of_def adult_of_def)
next
  case (Cons x xs)
  then show ?case
    by (cases "item_type x") (simp_all add: movies_of_def series_of_def adult_of_def)
qed

section \<open>From the retained entries to the documents\<close>

lemma process_category_small:
  assumes "length (movies_of its) + length (series_of its) + length (adult_of its)
             \<le> MAX_ITEMS_PER_FILE"
  shows "process_category rt (cat, its) =
     ((category_to_filename rt cat @ ascii ''.json'',
       CategoryData cat (movies_of its) (series_of its)) #
      (if adult_of its \<noteq> []
       then [(category_to_filename rt cat @ ascii ''_adult.json'', AdultData cat (adult_of its))]
       else []),
      \<lparr>ie_id = category_to_filename rt cat, ie_name = cat,
       movieCount = length (movies_of its), seriesCount = length (series_of its),
       adultCount = length (adult_of its),
       totalCount = length (movies_of its) + length (series_of its) + length (adult_of its),
       pages = None, hasMovies = None\<rparr>)"
  using assms by (simp add: process_category_def Let_def)

lemma process_category_large:
  assumes "MAX_ITEMS_PER_FILE
             < length (movies_of its) + length (series_of its) + length (adult_of its)"
  shows "process_category rt (cat, its) =
     (write_pages (category_to_filename rt cat) cat
        (max (length (pages_of MAX_ITEMS_PER_FILE (series_of its)))
             (length (pages_of MAX_ITEMS_PER_FILE (movies_of its))))
        1 (pages_of MAX_ITEMS_PER_FILE (series_of its)) @
      (if movies_of its \<noteq> []
       then [(category_to_filename rt cat @ ascii ''_movies.json'',
              CategoryData cat (movies_of its) [])]
       else []) @
      (if adult_of its \<noteq> []
       then [(category_to_filename rt cat @ ascii ''_adult.json'', AdultData cat (adult_of its))]
       else []),
      \<lparr>ie_id = category_to_filename rt cat, ie_name = cat,
       movieCount = length (movies_of its), seriesCount = length (series_of its),
       adultCount = length (adult_of its),
       totalCount = length (movies_of its) + length (series_of its) + length (adult_of its),
       pages = Some (max (length (pages_of MAX_ITEMS_PER_FILE (series_of its))) 1),
       hasMovies = Some (0 < length (movies_of its))\<rparr>)"
  using assms by (simp add: process_category_def Let_def)

lemma emitted_items_append: "emitted_items (a @ b) = emitted_items a @ emitted_items b"
  by (simp add: emitted_items_def)

lemma emitted_items_concat: "emitted_items (concat wss) = concat (map emitted_items wss)"
  by (induction wss) (simp_all add: emitted_items_def)

lemma emitted_items_write_pages:
  "emitted_items (write_pages filename_base cat t k ps) = concat ps"
  by (induction ps arbitrary: k) (simp_all add: emitted_items_def)

lemma partition_mset:
  "mset (movies_of its) + mset (series_of its) + mset (adult_of its) = mset its"
proof (induction its)
  case Nil
  show ?case by (simp add: movies_of_def series_of_def adult_of_def)
next
  case (Cons x xs)
  have "mset (movies_of (x # xs)) + mset (series_of (x # xs)) + mset (adult_of (x # xs)) =
        {#x#} + (mset (movies_of xs) + mset (series_of xs) + mset (adult_of xs))"
    by (cases "item_type x") (simp_all add: movies_of_def series_of_def adult_of_def)
  then show ?case by (simp add: Cons.IH)
qed

lemma emitted_process_category:
  "mset (emitted_items (fst (process_category rt (cat, its)))) = mset its"
proof (cases "length (movies_of its) + length (series_of its) + length (adult_of its)
                \<le> MAX_ITEMS_PER_FILE")
  case True
  have "mset (emitted_items (fst (process_category rt (cat, its)))) =
        mset (movies_of its) + mset (series_of its) + mset (adult_of its)"
    by (simp add: process_category_small[OF True] emitted_items_def)
  then show ?thesis by (simp only: partition_mset)
next
  case False
  then have large: "MAX_ITEMS_PER_FILE
      < length (movies_of its) + length (series_of its) + length (adult_of its)" by simp
  have pos: "0 < MAX_ITEMS_PER_FILE" by (simp add: MAX_ITEMS_PER_FILE_def)
  have "emitted_items (fst (process_category rt (cat, its))) =
        series_of its @ movies_of its @ adult_of its"
    by (simp add: process_category_large[OF large] emitted_items_append
        emitted_items_write_pages concat_pages_of[OF pos])
       (simp add: emitted_items_def)
  then have "mset (emitted_items (fst (process_category rt (cat, its)))) =
        mset (movies_of its) + mset (series_of its) + mset (adult_of its)"
    by simp
  then show ?thesis by (simp only: partition_mset)
qed

lemma setdefault_append_mset:
  "mset (concat (map snd (setdefault_append d k v))) = mset (concat (map snd d)) + {#v#}"
  by (induction d k v rule: setdefault_append.induct) simp_all

lemma foldl_setdefault_append_mset:
  "mset (concat (map snd
      (foldl (\<lambda>by_category e. setdefault_append by_category (category e) (item.truncate e))
         d xs))) =
   mset (concat (map snd d)) + mset (map item.truncate xs)"
  by (induction xs arbitrary: d) (simp_all add: setdefault_append_mset)

lemma group_by_category_mset:
  "mset (concat (map snd (group_by_category xs))) = mset (map item.truncate xs)"
  by (simp add: group_by_category_def foldl_setdefault_append_mset)

lemma emitted_groups:
  "mset (emitted_items (concat (map (\<lambda>g. fst (process_category rt g)) gs))) =
   mset (concat (map snd gs))"
proof (induction gs)
  case Nil
  show ?case by (simp add: emitted_items_def)
next
  case (Cons g gs)
  obtain cat its where g: "g = (cat, its)" by (cases g)
  show ?case
    using Cons.IH by (simp add: g emitted_items_append emitted_process_category)
qed

lemma emitted_category_files:
  "mset (emitted_items (category_files rt xs)) =
   mset (map item.truncate (unique_items (remove_duplicates xs)))"
  by (simp add: category_files_def emitted_groups group_by_category_mset)

lemma url_truncate: "url (item.truncate e) = url e"
  by (simp add: item.truncate_def)

lemma distinct_emitted_category_files:
  "distinct (map url (emitted_items (category_files rt xs)))"
proof -
  have "mset (map url (emitted_items (category_files rt xs))) =
        mset (map url (unique_items (remove_duplicates xs)))"
    using arg_cong[OF emitted_category_files[of rt xs], of "image_mset url"]
    by (simp add: multiset.map_comp comp_def url_truncate)
  moreover have "distinct (map url (unique_items (remove_duplicates xs)))"
    by (simp add: remove_duplicates_def foldl_dedup_step distinct_first_occurrences)
  ultimately show ?thesis
    by (metis mset_eq_imp_distinct_iff)
qed


section \<open>Runs that end without an exception\<close>

lemma length_strip: "length (strip s) \<le> length s"
proof -
  have "length (dropWhile is_space (rev (dropWhile is_space s))) \<le> length (dropWhile is_space s)"
    using length_dropWhile_le[of is_space "rev (dropWhile is_space s)"] by simp
  also have "\<dots> \<le> length s" by (rule length_dropWhile_le)
  finally show ?thesis by (simp add: strip_def)
qed

lemma length_group: "length (group s m g) \<le> length s"
  by (auto simp: group_def split: option.splits)

lemma py_int_short: "length s \<le> int_max_str_digits \<Longrightarrow> py_int s = Inr (int_of_digits s)"
  by (simp add: py_int_def)

lemma parse_series_info_short:
  assumes "length nm \<le> int_max_str_digits"
  shows "\<exists>r. parse_series_info nm = Inr r"
proof -
  have "\<And>m g. py_int (group nm m g) = Inr (int_of_digits (group nm m g))"
    using assms length_group[of nm] by (intro py_int_short) (meson le_trans)
  then show ?thesis
    by (simp add: parse_series_info_def split: option.splits)
qed

lemma make_item_short:
  assumes "length nm \<le> int_max_str_digits"
  shows "\<exists>it. make_item rt nm cat lg u = Inr it"
  using parse_series_info_short[OF assms]
  by (auto simp: make_item_def Let_def)

lemma lexer_step_short:
  assumes "pending_short st" "length raw_line \<le> int_max_str_digits"
  shows "\<exists>st'. lexer_step rt st raw_line = Inr st' \<and> pending_short st'"
proof -
  have l: "length (strip raw_line) \<le> int_max_str_digits"
    using length_strip[of raw_line] assms(2) by simp
  have g: "\<And>m. length (strip (group (strip raw_line) m 1)) \<le> int_max_str_digits"
    using length_strip length_group l by (meson le_trans)
  have ext: "pending_short (read_extinf st (strip raw_line))"
    using g by (simp add: pending_short_def read_extinf_def split: option.splits)
  have rst: "\<And>s. pending_short (reset_pending s)"
    by (simp add: pending_short_def reset_pending_def)
  have mk: "\<And>cat lg u. truthy (current_name st) \<Longrightarrow>
      \<exists>it. make_item rt (the (current_name st)) cat lg u = Inr it"
    using assms(1) by (intro make_item_short) (auto simp: truthy_def pending_short_def split: option.splits)
  show ?thesis
  proof (cases "truthy (current_name st)")
    case True
    obtain it where it: "make_item rt (the (current_name st))
        (or_else (current_category st) (ascii ''Outros'')) (current_logo st) (strip raw_line) =
        Inr it"
      using mk[OF True] by blast
    show ?thesis
      using ext rst assms(1) by (simp add: lexer_step_def Let_def it)
  next
    case False
    then show ?thesis
      using ext assms(1) by (simp add: lexer_step_def Let_def)
  qed
qed

lemma lexer_loop_short:
  assumes "pending_short st" "list_all (\<lambda>l. length l \<le> int_max_str_digits) ls"
  shows "\<exists>st'. lexer_loop rt st ls = Inr st'"
  using assms
proof (induction ls arbitrary: st)
  case Nil
  show ?case by simp
next
  case (Cons l ls)
  obtain st' where s: "lexer_step rt st l = Inr st'" "pending_short st'"
    using lexer_step_short[of st l rt] Cons.prems by auto
  show ?case using Cons.IH[OF s(2)] Cons.prems(2) by (simp add: s(1))
qed

lemma parse_m3u8_file_short:
  "short_lines file_text \<Longrightarrow> \<exists>xs. parse_m3u8_file rt file_text = Inr xs"
  using lexer_loop_short[of "\<lparr>current_name = None, current_category = None, current_logo = None,
      items = []\<rparr>" "split (universal_newlines file_text) 10" rt]
  by (auto simp: parse_m3u8_file_def short_lines_def pending_short_def Let_def)

lemma read_all_short:
  "list_all (\<lambda>f. case f of None \<Rightarrow> True | Some t \<Rightarrow> short_lines t) files \<Longrightarrow>
   \<exists>xs. read_all rt files = Inr xs"
proof (induction files)
  case Nil
  show ?case by simp
next
  case (Cons f fs)
  then obtain rest where r: "read_all rt fs = Inr rest" by auto
  show ?case
  proof (cases f)
    case None
    then show ?thesis by (simp add: r)
  next
    case (Some t)
    then obtain xs where "parse_m3u8_file rt t = Inr xs"
      using Cons.prems parse_m3u8_file_short[of t rt] by auto
    then show ?thesis by (simp add: Some r)
  qed
qed


section \<open>Claim C1: one entry per url in the output\<close>

lemma main_Inr:
  "main rt files = Inr ws \<longleftrightarrow>
     (\<exists>all_items. read_all rt files = Inr all_items \<and>
        ws = category_files rt all_items @
             [(ascii ''index.json'',
               IndexData (build_index rt (category_index rt all_items)))])"
  by (auto simp: main_def split: sum.splits)

lemma emitted_items_index: "emitted_items (ws @ [(f, IndexData ix)]) = emitted_items ws"
  by (simp add: emitted_items_def)

lemma unique_items_first_occurrences:
  "unique_items (remove_duplicates xs) = first_occurrences {} xs"
  by (simp add: remove_duplicates_def foldl_dedup_step)

lemma short_sample_playlist: "short_lines sample_playlist"
  by (simp add: sample_playlist_def short_lines_def ascii_def int_max_str_digits_def)

text \<open>
  Claim C1. The deduplication loop keeps, in source order, exactly the entries whose url
  occurs at no earlier position; every later entry with a url already seen is dropped and
  counted; the urls of the retained entries are pairwise distinct and are all the urls of
  the input. The items of the documents written for the categories are, as a multiset,
  the retained entries without their category, so no url occurs twice in them. The same
  holds of every run of \<open>main\<close> that ends without an exception: its documents hold the
  first occurrences of the entries read from the playlists, each once; and a run on
  playlists without overlong lines ends without an exception.
\<close>

theorem C1_dedup_first_occurrence:
  "unique_items (remove_duplicates xs) = first_occurrences {} xs \<and>
   subseq (unique_items (remove_duplicates xs)) xs \<and>
   distinct (map url (unique_items (remove_duplicates xs))) \<and>
   url ` set (unique_items (remove_duplicates xs)) = url ` set xs \<and>
   duplicates (remove_duplicates xs) = length xs - length (unique_items (remove_duplicates xs)) \<and>
   mset (emitted_items (category_files rt xs)) =
     mset (map item.truncate (first_occurrences {} xs)) \<and>
   distinct (map url (emitted_items (category_files rt xs))) \<and>
   (\<forall>ws. main rt files = Inr ws \<longrightarrow>
      (\<exists>all_items. read_all rt files = Inr all_items \<and>
         mset (emitted_items ws) = mset (map item.truncate (first_occurrences {} all_items))) \<and>
      distinct (map url (emitted_items ws))) \<and>
   (list_all (\<lambda>f. case f of None \<Rightarrow> True | Some t \<Rightarrow> short_lines t) files \<longrightarrow>
      (\<exists>ws. main rt files = Inr ws))"
proof -
  have dedup: "unique_items (remove_duplicates xs) = first_occurrences {} xs \<and>
      subseq (unique_items (remove_duplicates xs)) xs \<and>
      distinct (map url (unique_items (remove_duplicates xs))) \<and>
      url ` set (unique_items (remove_duplicates xs)) = url ` set xs \<and>
      duplicates (remove_duplicates xs) =
        length xs - length (unique_items (remove_duplicates xs))"
    by (simp add: remove_duplicates_def foldl_dedup_step subseq_first_occurrences
        distinct_first_occurrences url_first_occurrences)
  have files: "mset (emitted_items (category_files rt xs)) =
      mset (map item.truncate (first_occurrences {} xs))"
    by (simp add: emitted_category_files unique_items_first_occurrences)
  have run: "\<forall>ws. main rt files = Inr ws \<longrightarrow>
      (\<exists>all_items. read_all rt files = Inr all_items \<and>
         mset (emitted_items ws) = mset (map item.truncate (first_occurrences {} all_items))) \<and>
      distinct (map url (emitted_items ws))"
    by (auto simp: main_Inr emitted_items_index emitted_category_files
        unique_items_first_occurrences distinct_emitted_category_files)
  have total: "list_all (\<lambda>f. case f of None \<Rightarrow> True | Some t \<Rightarrow> short_lines t) files \<longrightarrow>
      (\<exists>ws. main rt files = Inr ws)"
    using read_all_short[of files rt] by (auto simp: main_Inr)
  show ?thesis
    using dedup files distinct_emitted_category_files[of rt xs] run total by blast
qed

theorem C1_dedup_first_occurrence_witness:
  "unique_items (remove_duplicates
      [sample_entry [97] [1], sample_entry [98] [2], sample_entry [99] [1]]) =
     [sample_entry [97] [1], sample_entry [98] [2]] \<and>
   duplicates (remove_duplicates
      [sample_entry [97] [1], sample_entry [98] [2], sample_entry [99] [1]]) = 1 \<and>
   mset (map url (emitted_items (category_files sample_runtime
      [sample_entry [97] [1], sample_entry [98] [2], sample_entry [99] [1]]))) =
     {#[1], [2]#} \<and>
   (\<exists>ws. main sample_runtime [Some sample_playlist, None] = Inr ws \<and>
      distinct (map url (emitted_items ws)))"
proof -
  let ?xs = "[sample_entry [97] [1], sample_entry [98] [2], sample_entry [99] [1]]"
  note c1 = C1_dedup_first_occurrence[of ?xs sample_runtime "[Some sample_playlist, None]"]
  have fo: "first_occurrences {} ?xs = [sample_entry [97] [1], sample_entry [98] [2]]"
    by (simp add: first_occurrences_Cons first_occurrences_Nil sample_entry_def)
  have a: "unique_items (remove_duplicates ?xs) = [sample_entry [97] [1], sample_entry [98] [2]]"
    using c1 fo by simp
  have b: "duplicates (remove_duplicates ?xs) = 1"
    using c1 a by simp
  have "mset (map url (emitted_items (category_files sample_runtime ?xs))) =
        image_mset url (mset (map item.truncate (first_occurrences {} ?xs)))"
    using c1 by (metis mset_map)
  then have "mset (map url (emitted_items (category_files sample_runtime ?xs))) =
        image_mset url
          (mset (map item.truncate [sample_entry [97] [1], sample_entry [98] [2]]))"
    by (simp only: fo)
  then have c: "mset (map url (emitted_items (category_files sample_runtime ?xs))) = {#[1], [2]#}"
    by (simp add: sample_entry_def item.truncate_def)
  have "list_all (\<lambda>f. case f of None \<Rightarrow> True | Some t \<Rightarrow> short_lines t)
          [Some sample_playlist, None]"
    by (simp add: short_sample_playlist)
  then have d: "\<exists>ws. main sample_runtime [Some sample_playlist, None] = Inr ws \<and>
      distinct (map url (emitted_items ws))"
    using c1 by blast
  show ?thesis using a b c d by blast
qed

section \<open>Claims C5 and C10: the documents of one category\<close>

lemma upt_3: "[0..<3] = [0, 1, 2]"
  by (simp add: numeral_3_eq_3 upt_rec)

lemma chunk_length:
  fixes n i :: nat
  assumes "i < (n + 4999) div 5000"
  shows "min 5000 (n - i * 5000) =
           (if i + 1 < (n + 4999) div 5000 then 5000 else n - i * 5000) \<and>
         0 < n - i * 5000"
proof -
  have "i + 1 \<le> (n + 4999) div 5000" using assms by simp
  then have pos: "(i + 1) * 5000 \<le> n + 4999"
    using less_eq_div_iff_mult_less_eq[of 5000 "i + 1" "n + 4999"] by simp
  show ?thesis
  proof (cases "i + 1 < (n + 4999) div 5000")
    case True
    then have "i + 2 \<le> (n + 4999) div 5000" by simp
    then have "(i + 2) * 5000 \<le> n + 4999"
      using less_eq_div_iff_mult_less_eq[of 5000 "i + 2" "n + 4999"] by simp
    then show ?thesis using True by simp
  next
    case False
    then have "(n + 4999) div 5000 < i + 2" by simp
    then have "n + 4999 < (i + 2) * 5000"
      using div_less_iff_less_mult[of 5000 "n + 4999" "i + 2"] by simp
    then show ?thesis using False pos by simp
  qed
qed

lemma str_nat_digit: "n < 10 \<Longrightarrow> str_nat n = [48 + n]"
  by (simp add: str_nat.simps)

lemma page_names:
  "ascii ''_p'' @ str_nat 1 @ ascii ''.json'' = ascii ''_p1.json''"
  "ascii ''_p'' @ str_nat 2 @ ascii ''.json'' = ascii ''_p2.json''"
  "ascii ''_p'' @ str_nat 3 @ ascii ''.json'' = ascii ''_p3.json''"
  by (simp_all add: str_nat_digit ascii_def)

lemma process_category_files_large:
  assumes "MAX_ITEMS_PER_FILE
             < length (movies_of its) + length (series_of its) + length (adult_of its)"
  shows "fst (process_category rt (cat, its)) =
     map (\<lambda>i. (category_to_filename rt cat @ ascii ''_p'' @ str_nat (i + 1) @ ascii ''.json'',
               PageData cat (i + 1)
                 (max ((length (series_of its) + 4999) div 5000)
                      ((length (movies_of its) + 4999) div 5000))
                 [] (take 5000 (drop (i * 5000) (series_of its)))))
       [0..<(length (series_of its) + 4999) div 5000] @
     (if movies_of its \<noteq> []
      then [(category_to_filename rt cat @ ascii ''_movies.json'',
             CategoryData cat (movies_of its) [])]
      else []) @
     (if adult_of its \<noteq> []
      then [(category_to_filename rt cat @ ascii ''_adult.json'', AdultData cat (adult_of its))]
      else [])"
  unfolding process_category_large[OF assms] fst_conv write_pages_of length_pages_of
  by (simp add: MAX_ITEMS_PER_FILE_def add.commute)

lemma concat_chunks:
  "concat (map (\<lambda>i. take 5000 (drop (i * 5000) xs)) [0..<(length xs + 4999) div 5000]) = xs"
  using concat_pages_of[of 5000 xs] by (simp add: pages_of_def comp_def add.commute)

lemma process_category_12000:
  assumes "length (series_of its) = 12000" "length (movies_of its) \<le> 15000"
  shows "fst (process_category rt (cat, its)) =
     [(category_to_filename rt cat @ ascii ''_p1.json'',
       PageData cat 1 3 [] (take 5000 (series_of its))),
      (category_to_filename rt cat @ ascii ''_p2.json'',
       PageData cat 2 3 [] (take 5000 (drop 5000 (series_of its)))),
      (category_to_filename rt cat @ ascii ''_p3.json'',
       PageData cat 3 3 [] (drop 10000 (series_of its)))] @
     (if movies_of its \<noteq> []
      then [(category_to_filename rt cat @ ascii ''_movies.json'',
             CategoryData cat (movies_of its) [])]
      else []) @
     (if adult_of its \<noteq> []
      then [(category_to_filename rt cat @ ascii ''_adult.json'', AdultData cat (adult_of its))]
      else [])"
proof -
  have large: "MAX_ITEMS_PER_FILE
      < length (movies_of its) + length (series_of its) + length (adult_of its)"
    using assms(1) by (simp add: MAX_ITEMS_PER_FILE_def)
  have k: "(length (series_of its) + 4999) div 5000 = 3"
    using assms(1) by simp
  have m: "max 3 ((length (movies_of its) + 4999) div 5000) = 3"
    using assms(2) by simp
  have last: "take 5000 (drop 10000 (series_of its)) = drop 10000 (series_of its)"
    using assms(1) by simp
  show ?thesis
    unfolding process_category_files_large[OF large] k m upt_3
    by (simp add: last str_nat_digit ascii_def)
qed

lemma main_documents:
  "main rt files = Inr ws \<longleftrightarrow>
     (\<exists>all_items. read_all rt files = Inr all_items \<and>
        ws = concat (map (\<lambda>g. fst (process_category rt g))
                      (group_by_category (first_occurrences {} all_items))) @
             [(ascii ''index.json'',
               IndexData (build_index rt
                 (map (\<lambda>g. snd (process_category rt g))
                    (group_by_category (first_occurrences {} all_items)))))])"
  by (simp add: main_Inr category_files_def category_index_def unique_items_first_occurrences)

lemma main_short:
  "list_all (\<lambda>f. case f of None \<Rightarrow> True | Some t \<Rightarrow> short_lines t) files \<Longrightarrow>
   \<exists>ws. main rt files = Inr ws"
  using read_all_short[of files rt] by (auto simp: main_Inr)

text \<open>
  Claim C5. A category whose movies, series and adult items are at most 5000 together gets
  one document \<open><slug>.json\<close> with all its movies and series (and the side file of its adult
  items, if any). A larger category gets one document \<open><slug>_p<i+1>.json\<close> for every
  \<open>i\<close> below the number of series pages, holding the 5000 series from index \<open>5000 i\<close> on (fewer
  on the last page, never none), with the page number \<open>i + 1\<close> and \<open>totalPages\<close> the larger
  of the numbers of series pages and of movie pages; the pages concatenated are the series
  list. With 12000 series and at most 15000 movies these are three pages of 5000, 5000 and
  2000 series with \<open>totalPages\<close> 3. The documents of a run of \<open>main\<close> are those of its
  category groups, in the order of the groups, followed by the index.
\<close>

theorem C5_pagination:
  "MAX_ITEMS_PER_FILE = 5000 \<and>
   (length (movies_of its) + length (series_of its) + length (adult_of its)
      \<le> MAX_ITEMS_PER_FILE \<longrightarrow>
    fst (process_category rt (cat, its)) =
      (category_to_filename rt cat @ ascii ''.json'',
       CategoryData cat (movies_of its) (series_of its)) #
      (if adult_of its \<noteq> []
       then [(category_to_filename rt cat @ ascii ''_adult.json'', AdultData cat (adult_of its))]
       else [])) \<and>
   (MAX_ITEMS_PER_FILE
      < length (movies_of its) + length (series_of its) + length (adult_of its) \<longrightarrow>
    fst (process_category rt (cat, its)) =
      map (\<lambda>i. (category_to_filename rt cat @ ascii ''_p'' @ str_nat (i + 1) @ ascii ''.json'',
                PageData cat (i + 1)
                  (max ((length (series_of its) + 4999) div 5000)
                       ((length (movies_of its) + 4999) div 5000))
                  [] (take 5000 (drop (i * 5000) (series_of its)))))
        [0..<(length (series_of its) + 4999) div 5000] @
      (if movies_of its \<noteq> []
       then [(category_to_filename rt cat @ ascii ''_movies.json'',
              CategoryData cat (movies_of its) [])]
       else []) @
      (if adult_of its \<noteq> []
       then [(category_to_filename rt cat @ ascii ''_adult.json'', AdultData cat (adult_of its))]
       else []) \<and>
    concat (map (\<lambda>i. take 5000 (drop (i * 5000) (series_of its)))
              [0..<(length (series_of its) + 4999) div 5000]) = series_of its \<and>
    (\<forall>i<(length (series_of its) + 4999) div 5000.
       length (take 5000 (drop (i * 5000) (series_of its))) =
         (if i + 1 < (length (series_of its) + 4999) div 5000 then 5000
          else length (series_of its) - i * 5000) \<and>
       0 < length (take 5000 (drop (i * 5000) (series_of its))))) \<and>
   (length (series_of its) = 12000 \<and> length (movies_of its) \<le> 15000 \<longrightarrow>
    fst (process_category rt (cat, its)) =
      [(category_to_filename rt cat @ ascii ''_p1.json'',
        PageData cat 1 3 [] (take 5000 (series_of its))),
       (category_to_filename rt cat @ ascii ''_p2.json'',
        PageData cat 2 3 [] (take 5000 (drop 5000 (series_of its)))),
       (category_to_filename rt cat @ ascii ''_p3.json'',
        PageData cat 3 3 [] (drop 10000 (series_of its)))] @
      (if movies_of its \<noteq> []
       then [(category_to_filename rt cat @ ascii ''_movies.json'',
              CategoryData cat (movies_of its) [])]
       else []) @
      (if adult_of its \<noteq> []
       then [(category_to_filename rt cat @ ascii ''_adult.json'', AdultData cat (adult_of its))]
       else []) \<and>
    map length [take 5000 (series_of its), take 5000 (drop 5000 (series_of its)),
                drop 10000 (series_of its)] = [5000, 5000, 2000]) \<and>
   (\<forall>ws. main rt files = Inr ws \<longrightarrow>
      (\<exists>all_items. read_all rt files = Inr all_items \<and>
         butlast ws =
           concat (map (\<lambda>g. fst (process_category rt g))
                     (group_by_category (first_occurrences {} all_items)))))"
proof -
  have c0: "MAX_ITEMS_PER_FILE = 5000"
    by (simp add: MAX_ITEMS_PER_FILE_def)
  have small: "length (movies_of its) + length (series_of its) + length (adult_of its)
      \<le> MAX_ITEMS_PER_FILE \<longrightarrow>
    fst (process_category rt (cat, its)) =
      (category_to_filename rt cat @ ascii ''.json'',
       CategoryData cat (movies_of its) (series_of its)) #
      (if adult_of its \<noteq> []
       then [(category_to_filename rt cat @ ascii ''_adult.json'', AdultData cat (adult_of its))]
       else [])"
    by (simp add: process_category_small)
  have chunks: "\<forall>i<(length (series_of its) + 4999) div 5000.
       length (take 5000 (drop (i * 5000) (series_of its))) =
         (if i + 1 < (length (series_of its) + 4999) div 5000 then 5000
          else length (series_of its) - i * 5000) \<and>
       0 < length (take 5000 (drop (i * 5000) (series_of its)))"
    using chunk_length[of _ "length (series_of its)"] by (simp add: min.commute)
  have large: "MAX_ITEMS_PER_FILE
      < length (movies_of its) + length (series_of its) + length (adult_of its) \<longrightarrow>
    fst (process_category rt (cat, its)) =
      map (\<lambda>i. (category_to_filename rt cat @ ascii ''_p'' @ str_nat (i + 1) @ ascii ''.json'',
                PageData cat (i + 1)
                  (max ((length (series_of its) + 4999) div 5000)
                       ((length (movies_of its) + 4999) div 5000))
                  [] (take 5000 (drop (i * 5000) (series_of its)))))
        [0..<(length (series_of its) + 4999) div 5000] @
      (if movies_of its \<noteq> []
       then [(category_to_filename rt cat @ ascii ''_movies.json'',
              CategoryData cat (movies_of its) [])]
       else []) @
      (if adult_of its \<noteq> []
       then [(category_to_filename rt cat @ ascii ''_adult.json'', AdultData cat (adult_of its))]
       else []) \<and>
    concat (map (\<lambda>i. take 5000 (drop (i * 5000) (series_of its)))
              [0..<(length (series_of its) + 4999) div 5000]) = series_of its \<and>
    (\<forall>i<(length (series_of its) + 4999) div 5000.
       length (take 5000 (drop (i * 5000) (series_of its))) =
         (if i + 1 < (length (series_of its) + 4999) div 5000 then 5000
          else length (series_of its) - i * 5000) \<and>
       0 < length (take 5000 (drop (i * 5000) (series_of its))))"
    using process_category_files_large[of its rt cat] concat_chunks[of "series_of its"] chunks
    by blast
  have lens: "length (series_of its) = 12000 \<longrightarrow>
    map length [take 5000 (series_of its), take 5000 (drop 5000 (series_of its)),
                drop 10000 (series_of its)] = [5000, 5000, 2000]"
    by simp
  have inst: "length (series_of its) = 12000 \<and> length (movies_of its) \<le> 15000 \<longrightarrow>
    fst (process_category rt (cat, its)) =
      [(category_to_filename rt cat @ ascii ''_p1.json'',
        PageData cat 1 3 [] (take 5000 (series_of its))),
       (category_to_filename rt cat @ ascii ''_p2.json'',
        PageData cat 2 3 [] (take 5000 (drop 5000 (series_of its)))),
       (category_to_filename rt cat @ ascii ''_p3.json'',
        PageData cat 3 3 [] (drop 10000 (series_of its)))] @
      (if movies_of its \<noteq> []
       then [(category_to_filename rt cat @ ascii ''_movies.json'',
              CategoryData cat (movies_of its) [])]
       else []) @
      (if adult_of its \<noteq> []
       then [(category_to_filename rt cat @ ascii ''_adult.json'', AdultData cat (adult_of its))]
       else []) \<and>
    map length [take 5000 (series_of its), take 5000 (drop 5000 (series_of its)),
                drop 10000 (series_of its)] = [5000, 5000, 2000]"
    using process_category_12000[of its rt cat] lens by blast
  have run: "\<forall>ws. main rt files = Inr ws \<longrightarrow>
      (\<exists>all_items. read_all rt files = Inr all_items \<and>
         butlast ws =
           concat (map (\<lambda>g. fst (process_category rt g))
                     (group_by_category (first_occurrences {} all_items))))"
    by (auto simp: main_documents)
  show ?thesis
    by (rule conjI[OF c0 conjI[OF small conjI[OF large conjI[OF inst run]]]])
qed

theorem C5_pagination_witness:
  "map (\<lambda>w. (doc_page (snd w), doc_totalPages (snd w), length (doc_series (snd w))))
     (fst (process_category sample_runtime
        (ascii ''Drama'', replicate 12000 (sample_item Series False [7])))) =
     [(1, 3, 5000), (2, 3, 5000), (3, 3, 2000)] \<and>
   map snd (fst (process_category sample_runtime
        (ascii ''Drama'', [sample_item Movie False [7], sample_item Series False [8]]))) =
     [CategoryData (ascii ''Drama'') [sample_item Movie False [7]]
        [sample_item Series False [8]]] \<and>
   (\<exists>ws all_items. main sample_runtime [Some sample_playlist, None] = Inr ws \<and>
      read_all sample_runtime [Some sample_playlist, None] = Inr all_items \<and>
      butlast ws =
        concat (map (\<lambda>g. fst (process_category sample_runtime g))
                  (group_by_category (first_occurrences {} all_items))))"
proof -
  let ?big = "replicate 12000 (sample_item Series False [7])"
  let ?small = "[sample_item Movie False [7], sample_item Series False [8]]"
  have big: "series_of ?big = ?big" "movies_of ?big = []" "adult_of ?big = []"
    by (simp_all add: series_of_def movies_of_def adult_of_def sample_item_def)
  have sm: "movies_of ?small = [sample_item Movie False [7]]"
    "series_of ?small = [sample_item Series False [8]]" "adult_of ?small = []"
    by (simp_all add: series_of_def movies_of_def adult_of_def sample_item_def)
  have h: "length (series_of ?big) = 12000 \<and> length (movies_of ?big) \<le> 15000"
    by (simp add: big)
  have "fst (process_category sample_runtime (ascii ''Drama'', ?big)) =
      [(category_to_filename sample_runtime (ascii ''Drama'') @ ascii ''_p1.json'',
        PageData (ascii ''Drama'') 1 3 [] (take 5000 (series_of ?big))),
       (category_to_filename sample_runtime (ascii ''Drama'') @ ascii ''_p2.json'',
        PageData (ascii ''Drama'') 2 3 [] (take 5000 (drop 5000 (series_of ?big)))),
       (category_to_filename sample_runtime (ascii ''Drama'') @ ascii ''_p3.json'',
        PageData (ascii ''Drama'') 3 3 [] (drop 10000 (series_of ?big)))] @
      (if movies_of ?big \<noteq> []
       then [(category_to_filename sample_runtime (ascii ''Drama'') @ ascii ''_movies.json'',
              CategoryData (ascii ''Drama'') (movies_of ?big) [])]
       else []) @
      (if adult_of ?big \<noteq> []
       then [(category_to_filename sample_runtime (ascii ''Drama'') @ ascii ''_adult.json'',
              AdultData (ascii ''Drama'') (adult_of ?big))]
       else [])"
    using C5_pagination[of ?big sample_runtime "ascii ''Drama''" "[]"] h by blast
  then have a: "map (\<lambda>w. (doc_page (snd w), doc_totalPages (snd w), length (doc_series (snd w))))
     (fst (process_category sample_runtime (ascii ''Drama'', ?big))) =
     [(1, 3, 5000), (2, 3, 5000), (3, 3, 2000)]"
    by (simp add: big)
  have "length (movies_of ?small) + length (series_of ?small) + length (adult_of ?small)
      \<le> MAX_ITEMS_PER_FILE"
    by (simp add: sm MAX_ITEMS_PER_FILE_def)
  then have "fst (process_category sample_runtime (ascii ''Drama'', ?small)) =
      (category_to_filename sample_runtime (ascii ''Drama'') @ ascii ''.json'',
       CategoryData (ascii ''Drama'') (movies_of ?small) (series_of ?small)) #
      (if adult_of ?small \<noteq> []
       then [(category_to_filename sample_runtime (ascii ''Drama'') @ ascii ''_adult.json'',
              AdultData (ascii ''Drama'') (adult_of ?small))]
       else [])"
    using C5_pagination[of ?small sample_runtime "ascii ''Drama''" "[]"] by blast
  then have b: "map snd (fst (process_category sample_runtime (ascii ''Drama'', ?small))) =
     [CategoryData (ascii ''Drama'') [sample_item Movie False [7]]
        [sample_item Series False [8]]]"
    by (simp add: sm)
  obtain ws where ws: "main sample_runtime [Some sample_playlist, None] = Inr ws"
    using main_short[of "[Some sample_playlist, None]" sample_runtime]
    by (auto simp: short_sample_playlist)
  have c: "\<exists>ws all_items. main sample_runtime [Some sample_playlist, None] = Inr ws \<and>
      read_all sample_runtime [Some sample_playlist, None] = Inr all_items \<and>
      butlast ws =
        concat (map (\<lambda>g. fst (process_category sample_runtime g))
                  (group_by_category (first_occurrences {} all_items)))"
    using C5_pagination[of "[]" sample_runtime "[]" "[Some sample_playlist, None]"] ws
    by blast
  show ?thesis using a b c by blast
qed

lemma set_sort_index: "set (sort_index xs) = set xs"
  by (simp add: sort_index_def)

lemma categories_build_index: "set (categories (build_index rt xs)) = set xs"
  by (simp add: build_index_def Let_def set_sort_index)

text \<open>
  Claim C10. For a category of more than 5000 items none of which is a series that is not
  adult, the documents written are the \<open>_movies\<close> file when there are movies and the
  \<open>_adult\<close> file when there are adult items, and nothing else: none of them is named
  \<open><slug>.json\<close> or \<open><slug>_p<n>.json\<close>, none is a page document. The entry of the
  category for the index nevertheless has \<open>pages\<close> 1, and in a run of \<open>main\<close> the entry of
  every category group is among the categories of the index written last.
\<close>

theorem C10_pages_without_page_file:
  "(MAX_ITEMS_PER_FILE
      < length (movies_of its) + length (series_of its) + length (adult_of its) \<and>
    series_of its = [] \<longrightarrow>
    fst (process_category rt (cat, its)) =
      (if movies_of its \<noteq> []
       then [(category_to_filename rt cat @ ascii ''_movies.json'',
              CategoryData cat (movies_of its) [])]
       else []) @
      (if adult_of its \<noteq> []
       then [(category_to_filename rt cat @ ascii ''_adult.json'', AdultData cat (adult_of its))]
       else []) \<and>
    (\<forall>w \<in> set (fst (process_category rt (cat, its))).
       fst w \<noteq> category_to_filename rt cat @ ascii ''.json'' \<and>
       (\<forall>n. fst w \<noteq> category_to_filename rt cat @ ascii ''_p'' @ str_nat n @ ascii ''.json'') \<and>
       (\<forall>c p t ms ss. snd w \<noteq> PageData c p t ms ss)) \<and>
    snd (process_category rt (cat, its)) =
      \<lparr>ie_id = category_to_filename rt cat, ie_name = cat,
       movieCount = length (movies_of its), seriesCount = 0,
       adultCount = length (adult_of its),
       totalCount = length (movies_of its) + length (adult_of its),
       pages = Some 1, hasMovies = Some (0 < length (movies_of its))\<rparr>) \<and>
   (\<forall>ws. main rt files = Inr ws \<longrightarrow>
      (\<exists>all_items ix. read_all rt files = Inr all_items \<and>
         last ws = (ascii ''index.json'', IndexData ix) \<and>
         set (categories ix) =
           (\<lambda>g. snd (process_category rt g)) `
             set (group_by_category (first_occurrences {} all_items))))"
proof -
  have grp: "MAX_ITEMS_PER_FILE
      < length (movies_of its) + length (series_of its) + length (adult_of its) \<and>
    series_of its = [] \<longrightarrow>
    fst (process_category rt (cat, its)) =
      (if movies_of its \<noteq> []
       then [(category_to_filename rt cat @ ascii ''_movies.json'',
              CategoryData cat (movies_of its) [])]
       else []) @
      (if adult_of its \<noteq> []
       then [(category_to_filename rt cat @ ascii ''_adult.json'', AdultData cat (adult_of its))]
       else []) \<and>
    (\<forall>w \<in> set (fst (process_category rt (cat, its))).
       fst w \<noteq> category_to_filename rt cat @ ascii ''.json'' \<and>
       (\<forall>n. fst w \<noteq> category_to_filename rt cat @ ascii ''_p'' @ str_nat n @ ascii ''.json'') \<and>
       (\<forall>c p t ms ss. snd w \<noteq> PageData c p t ms ss)) \<and>
    snd (process_category rt (cat, its)) =
      \<lparr>ie_id = category_to_filename rt cat, ie_name = cat,
       movieCount = length (movies_of its), seriesCount = 0,
       adultCount = length (adult_of its),
       totalCount = length (movies_of its) + length (adult_of its),
       pages = Some 1, hasMovies = Some (0 < length (movies_of its))\<rparr>"
  proof
    assume h: "MAX_ITEMS_PER_FILE
        < length (movies_of its) + length (series_of its) + length (adult_of its) \<and>
      series_of its = []"
    from h have large: "MAX_ITEMS_PER_FILE
        < length (movies_of its) + length (series_of its) + length (adult_of its)"
      by (rule conjunct1)
    from h have empty: "series_of its = []"
      by (rule conjunct2)
    have files: "fst (process_category rt (cat, its)) =
      (if movies_of its \<noteq> []
       then [(category_to_filename rt cat @ ascii ''_movies.json'',
              CategoryData cat (movies_of its) [])]
       else []) @
      (if adult_of its \<noteq> []
       then [(category_to_filename rt cat @ ascii ''_adult.json'', AdultData cat (adult_of its))]
       else [])"
      by (simp add: process_category_large[OF large] empty pages_of_Nil)
    have names: "\<forall>w \<in> set (fst (process_category rt (cat, its))).
       fst w \<noteq> category_to_filename rt cat @ ascii ''.json'' \<and>
       (\<forall>n. fst w \<noteq> category_to_filename rt cat @ ascii ''_p'' @ str_nat n @ ascii ''.json'') \<and>
       (\<forall>c p t ms ss. snd w \<noteq> PageData c p t ms ss)"
      unfolding files by (auto simp: ascii_def)
    have ie: "snd (process_category rt (cat, its)) =
      \<lparr>ie_id = category_to_filename rt cat, ie_name = cat,
       movieCount = length (movies_of its), seriesCount = 0,
       adultCount = length (adult_of its),
       totalCount = length (movies_of its) + length (adult_of its),
       pages = Some 1, hasMovies = Some (0 < length (movies_of its))\<rparr>"
      by (simp add: process_category_large[OF large] empty pages_of_Nil)
    show "fst (process_category rt (cat, its)) =
      (if movies_of its \<noteq> []
       then [(category_to_filename rt cat @ ascii ''_movies.json'',
              CategoryData cat (movies_of its) [])]
       else []) @
      (if adult_of its \<noteq> []
       then [(category_to_filename rt cat @ ascii ''_adult.json'', AdultData cat (adult_of its))]
       else []) \<and>
    (\<forall>w \<in> set (fst (process_category rt (cat, its))).
       fst w \<noteq> category_to_filename rt cat @ ascii ''.json'' \<and>
       (\<forall>n. fst w \<noteq> category_to_filename rt cat @ ascii ''_p'' @ str_nat n @ ascii ''.json'') \<and>
       (\<forall>c p t ms ss. snd w \<noteq> PageData c p t ms ss)) \<and>
    snd (process_category rt (cat, its)) =
      \<lparr>ie_id = category_to_filename rt cat, ie_name = cat,
       movieCount = length (movies_of its), seriesCount = 0,
       adultCount = length (adult_of its),
       totalCount = length (movies_of its) + length (adult_of its),
       pages = Some 1, hasMovies = Some (0 < length (movies_of its))\<rparr>"
      by (rule conjI[OF files conjI[OF names ie]])
  qed
  have run: "\<forall>ws. main rt files = Inr ws \<longrightarrow>
      (\<exists>all_items ix. read_all rt files = Inr all_items \<and>
         last ws = (ascii ''index.json'', IndexData ix) \<and>
         set (categories ix) =
           (\<lambda>g. snd (process_category rt g)) `
             set (group_by_category (first_occurrences {} all_items)))"
    by (auto simp: main_documents categories_build_index)
  show ?thesis by (rule conjI[OF grp run])
qed

theorem C10_pages_without_page_file_witness:
  "fst (process_category sample_runtime
      (ascii ''Drama'', replicate 5001 (sample_item Movie False [7]))) =
     [(category_to_filename sample_runtime (ascii ''Drama'') @ ascii ''_movies.json'',
       CategoryData (ascii ''Drama'') (replicate 5001 (sample_item Movie False [7])) [])] \<and>
   pages (snd (process_category sample_runtime
      (ascii ''Drama'', replicate 5001 (sample_item Movie False [7])))) = Some 1 \<and>
   (\<exists>ws ix. main sample_runtime [Some sample_playlist, None] = Inr ws \<and>
      last ws = (ascii ''index.json'', IndexData ix))"
proof -
  let ?its = "replicate 5001 (sample_item Movie False [7])"
  have its: "series_of ?its = []" "movies_of ?its = ?its" "adult_of ?its = []"
    by (simp_all add: series_of_def movies_of_def adult_of_def sample_item_def)
  have h: "MAX_ITEMS_PER_FILE
      < length (movies_of ?its) + length (series_of ?its) + length (adult_of ?its) \<and>
    series_of ?its = []"
    by (simp add: its MAX_ITEMS_PER_FILE_def)
  note c10 = C10_pages_without_page_file[of ?its sample_runtime "ascii ''Drama''"
      "[Some sample_playlist, None]"]
  have "fst (process_category sample_runtime (ascii ''Drama'', ?its)) =
      (if movies_of ?its \<noteq> []
       then [(category_to_filename sample_runtime (ascii ''Drama'') @ ascii ''_movies.json'',
              CategoryData (ascii ''Drama'') (movies_of ?its) [])]
       else []) @
      (if adult_of ?its \<noteq> []
       then [(category_to_filename sample_runtime (ascii ''Drama'') @ ascii ''_adult.json'',
              AdultData (ascii ''Drama'') (adult_of ?its))]
       else [])"
    using c10 h by blast
  then have a: "fst (process_category sample_runtime (ascii ''Drama'', ?its)) =
     [(category_to_filename sample_runtime (ascii ''Drama'') @ ascii ''_movies.json'',
       CategoryData (ascii ''Drama'') ?its [])]"
    by (simp add: its)
  have "snd (process_category sample_runtime (ascii ''Drama'', ?its)) =
      \<lparr>ie_id = category_to_filename sample_runtime (ascii ''Drama''), ie_name = ascii ''Drama'',
       movieCount = length (movies_of ?its), seriesCount = 0,
       adultCount = length (adult_of ?its),
       totalCount = length (movies_of ?its) + length (adult_of ?its),
       pages = Some 1, hasMovies = Some (0 < length (movies_of ?its))\<rparr>"
    using c10 h by blast
  then have b: "pages (snd (process_category sample_runtime (ascii ''Drama'', ?its))) = Some 1"
    by simp
  obtain ws where ws: "main sample_runtime [Some sample_playlist, None] = Inr ws"
    using main_short[of "[Some sample_playlist, None]" sample_runtime]
    by (auto simp: short_sample_playlist)
  have c: "\<exists>ws ix. main sample_runtime [Some sample_playlist, None] = Inr ws \<and>
      last ws = (ascii ''index.json'', IndexData ix)"
    using c10 ws by blast
  show ?thesis using a b c by blast
qed
end
